theory Spec2Isabelle
  imports Complex_Main
begin

text \<open>
  A shallow embedding of the core of graphql-reflect-go: the traversal that derives a
  GraphQL schema from a Go type (\<^verbatim>\<open>createGraphQlFieldHierarchy\<close>), the resolver it
  binds to every field (the \<^verbatim>\<open>Resolve\<close> closure), and the entry point that executes
  a query (\<^verbatim>\<open>executeQuery\<close>, \<^verbatim>\<open>QueryStructViaGraphql\<close>). Line numbers refer to the
  source file of that core. Panics are values: every function that can panic returns
  \<open>Inl\<close> of the panic or \<open>Inr\<close> of its result. The packages the core calls are
  modelled by what they document (\<^verbatim>\<open>reflect\<close>, \<^verbatim>\<open>strings\<close>) or taken as parameters
  (\<^verbatim>\<open>graphql.Do\<close>, \<^verbatim>\<open>graphql.NewSchema\<close>, \<^verbatim>\<open>json.MarshalIndent\<close>, and the call of
  a function value).
\<close>

section \<open>Go types as the reflect package presents them\<close>

text \<open>
  The program inspects its input through Go's \<^verbatim>\<open>reflect\<close> package. A
  \<^verbatim>\<open>reflect.Type\<close> is modelled by the datatype \<open>gotype\<close>; every type carries
  its \<^verbatim>\<open>PkgPath()\<close> and its \<^verbatim>\<open>Name()\<close> (both empty for an unnamed type such as
  \<^verbatim>\<open>[]int\<close>), and its \<^verbatim>\<open>Kind()\<close> follows from the constructor. A struct type
  lists its fields as \<^verbatim>\<open>reflect.VisibleFields\<close> returns them: the name, the
  \<^verbatim>\<open>PkgPath\<close> of the field (empty exactly for an exported field) and the type.
  Embedded structs are not modelled: all fields of a struct sit at depth 0.
\<close>

datatype kind =
    KInvalid | KBool | KInt | KInt8 | KInt16 | KInt32 | KInt64
  | KUint | KUint8 | KUint16 | KUint32 | KUint64 | KUintptr
  | KFloat32 | KFloat64 | KComplex64 | KComplex128
  | KArray | KChan | KFunc | KInterface | KMap | KPointer | KSlice | KString | KStruct
  | KUnsafePointer

datatype gotype =
    Basic string string kind
  | StructT string string "(string \<times> string \<times> gotype) list"
  | SliceT string string gotype
  | ArrayT string string nat gotype
  | FuncT string string "gotype list" "gotype list"

fun Name :: "gotype \<Rightarrow> string" where
  "Name (Basic p n k) = n"
| "Name (StructT p n fs) = n"
| "Name (SliceT p n e) = n"
| "Name (ArrayT p n len e) = n"
| "Name (FuncT p n ins outs) = n"

fun Kind :: "gotype \<Rightarrow> kind" where
  "Kind (Basic p n k) = k"
| "Kind (StructT p n fs) = KStruct"
| "Kind (SliceT p n e) = KSlice"
| "Kind (ArrayT p n len e) = KArray"
| "Kind (FuncT p n ins outs) = KFunc"

text \<open>\<^verbatim>\<open>var typeTime = reflect.TypeOf(time.Time{})\<close>: the struct \<^verbatim>\<open>time.Time\<close>
  with its three unexported fields.\<close>

definition typeTime :: gotype where
  "typeTime = StructT ''time'' ''Time''
     [(''wall'', ''time'', Basic [] ''uint64'' KUint64),
      (''ext'', ''time'', Basic [] ''int64'' KInt64),
      (''loc'', ''time'', Basic [] [] KPointer)]"

section \<open>The schema types of the graphql package\<close>

text \<open>
  A \<^verbatim>\<open>graphql.Output\<close> is one of the four predeclared scalars, an object made
  by \<^verbatim>\<open>graphql.NewObject\<close>, a list made by \<^verbatim>\<open>graphql.NewList\<close> or an input
  object made by \<^verbatim>\<open>graphql.NewInputObject\<close>. An object is a pointer: it is
  modelled by the number of the \<^verbatim>\<open>NewObject\<close> call that made it, so that two
  outputs are the same instance exactly when they are equal. The nil interface is
  \<open>None\<close> of \<open>gqlOutput option\<close>; \<^verbatim>\<open>NewList(nil)\<close> still returns a list (one
  that carries an error), which is \<open>GList None\<close>.
\<close>

datatype gqlOutput =
    GString | GInt | GFloat | GBoolean
  | GObject nat
  | GList "gqlOutput option"
  | GInputObject string "string \<Rightarrow> gqlOutput option"

fun getBasicOutput :: "gotype \<Rightarrow> gqlOutput option" where
  "getBasicOutput t =
     (case Kind t of
        KString \<Rightarrow> Some GString
      | KInt \<Rightarrow> Some GFloat | KUint \<Rightarrow> Some GFloat
      | KInt8 \<Rightarrow> Some GFloat | KUint8 \<Rightarrow> Some GFloat
      | KInt16 \<Rightarrow> Some GFloat | KUint16 \<Rightarrow> Some GFloat
      | KInt32 \<Rightarrow> Some GFloat | KUint32 \<Rightarrow> Some GFloat
      | KInt64 \<Rightarrow> Some GFloat | KUint64 \<Rightarrow> Some GFloat
      | KBool \<Rightarrow> Some GBoolean
      | KFloat32 \<Rightarrow> Some GFloat | KFloat64 \<Rightarrow> Some GFloat
      | _ \<Rightarrow> None)"

text \<open>
  \<^verbatim>\<open>strings.ToLower\<close> on the ASCII letters; every other byte is kept (the names of
  struct fields are taken to be ASCII).
\<close>

definition toLowerChar :: "char \<Rightarrow> char" where
  "toLowerChar c =
     (case map_of (zip ''ABCDEFGHIJKLMNOPQRSTUVWXYZ'' ''abcdefghijklmnopqrstuvwxyz'') c of
        None \<Rightarrow> c
      | Some l \<Rightarrow> l)"

definition ToLower :: "string \<Rightarrow> string" where
  "ToLower s = map toLowerChar s"

text \<open>
  A \<^verbatim>\<open>graphql.Field\<close> as the traversal builds it. Its \<^verbatim>\<open>Resolve\<close> closure
  captures the two variables \<^verbatim>\<open>structFieldName\<close> and \<^verbatim>\<open>structFieldTypeKind\<close>;
  the record keeps them, and the closure's body is the function \<open>Resolve\<close> below
  applied to them.
\<close>

datatype argumentConfig = ArgumentConfig gqlOutput

record field =
  fName :: string
  fType :: gqlOutput
  fArgs :: "string \<Rightarrow> argumentConfig option"
  structFieldName :: string
  structFieldTypeKind :: kind

type_synonym Fields = "string \<Rightarrow> field option"

text \<open>
  The two maps the traversal threads through its recursion, \<^verbatim>\<open>typesMap\<close> and
  \<^verbatim>\<open>filterMap\<close> (Go maps are references: a write made by a recursive call is seen
  by the caller, so the state is passed in and returned), and the log of the objects
  made so far: entry \<open>i\<close> holds the name and the fields given to the \<open>i\<close>-th call
  of \<^verbatim>\<open>graphql.NewObject\<close>. A nil map is the empty map (the function replaces a nil
  argument by a fresh empty map before it reads it).
\<close>

record build =
  typesMap :: "string \<Rightarrow> (gqlOutput option \<times> Fields) option"
  filterMap :: "string \<Rightarrow> argumentConfig option"
  objects :: "(string \<times> Fields) list"

datatype panic =
    OutIndexOutOfBounds
  | NotAStruct
  | ZeroValue
  | ReadOnlyValue
  | NotNillable
  | NoLen
  | IndexOutOfRange
  | UnaddressableArray
  | SliceOutOfBounds
  | NotSliceable
  | FailedTypeAssertion
  | WrongKind
  | CallPanic
  | UncomparableType

text \<open>Lines 139 to 149: one argument for every scalar-typed entry of the sub-field map.\<close>

definition filterArguments :: "Fields \<Rightarrow> (string \<Rightarrow> argumentConfig option)" where
  "filterArguments subfields =
     (\<lambda>k. case subfields k of
            None \<Rightarrow> None
          | Some v \<Rightarrow>
              (if fType v = GString \<or> fType v = GInt \<or> fType v = GBoolean \<or> fType v = GFloat
               then Some (ArgumentConfig (fType v)) else None))"

text \<open>Lines 172 to 181: the members of the filter's input object.\<close>

fun inputObjectFields ::
  "(string \<times> string \<times> gotype) list \<Rightarrow> (string \<Rightarrow> gqlOutput option) \<Rightarrow> (string \<Rightarrow> gqlOutput option)"
where
  "inputObjectFields [] flds = flds"
| "inputObjectFields ((vName, vPkg, vType) # rest) flds =
     (case getBasicOutput vType of
        None \<Rightarrow> inputObjectFields rest flds
      | Some t \<Rightarrow> inputObjectFields rest (flds(ToLower vName \<mapsto> t)))"

text \<open>\<^verbatim>\<open>t.Elem()\<close> of a slice or array type (it panics on the other types modelled
  here, and the traversal never calls it on one), and \<^verbatim>\<open>reflect.VisibleFields(t)\<close>
  of a struct type.\<close>

fun Elem :: "gotype \<Rightarrow> gotype option" where
  "Elem (SliceT p n e) = Some e"
| "Elem (ArrayT p n len e) = Some e"
| "Elem t = None"

fun VisibleFields :: "gotype \<Rightarrow> (string \<times> string \<times> gotype) list" where
  "VisibleFields (StructT p n vfs) = vfs"
| "VisibleFields t = []"

text \<open>Lines 161 to 206, for a member whose declared kind is slice or array and whose
  element type is \<open>elem\<close>.\<close>

definition listArguments ::
  "string \<Rightarrow> gotype \<Rightarrow> (string \<Rightarrow> argumentConfig option) \<Rightarrow> (string \<Rightarrow> argumentConfig option)
     \<Rightarrow> (string \<Rightarrow> argumentConfig option) \<times> (string \<Rightarrow> argumentConfig option)"
where
  "listArguments sfName elem args fm =
     (if Kind elem = KStruct then
        (case fm sfName of
           Some argConfig \<Rightarrow> (args(''where'' \<mapsto> argConfig), fm)
         | None \<Rightarrow>
             (let argConfig =
                    ArgumentConfig (GInputObject (ToLower sfName)
                      (inputObjectFields (VisibleFields elem) Map.empty))
              in (args(''where'' \<mapsto> argConfig), fm(sfName \<mapsto> argConfig))))
      else (args(''skip'' \<mapsto> ArgumentConfig GInt, ''limit'' \<mapsto> ArgumentConfig GInt), fm))"

text \<open>Lines 156 to 207: the switch on the declared kind of the member.\<close>

definition kindArguments ::
  "string \<Rightarrow> gotype \<Rightarrow> (string \<Rightarrow> argumentConfig option) \<Rightarrow> (string \<Rightarrow> argumentConfig option)
     \<Rightarrow> (string \<Rightarrow> argumentConfig option) \<times> (string \<Rightarrow> argumentConfig option)"
where
  "kindArguments sfName sfType args fm =
     (case sfType of
        SliceT p n elem \<Rightarrow> listArguments sfName elem args fm
      | ArrayT p n len elem \<Rightarrow> listArguments sfName elem args fm
      | _ \<Rightarrow> (args, fm))"

text \<open>
  \<^verbatim>\<open>createGraphQlFieldHierarchy\<close> (lines 65 to 343) with the loop over the visible
  fields of a struct (lines 114 to 327) as \<open>structFieldLoop\<close>. \<^verbatim>\<open>t.Out(0)\<close> panics
  for a function type without results.
\<close>

fun createGraphQlFieldHierarchy ::
      "gotype \<Rightarrow> build \<Rightarrow> panic + ((gqlOutput option \<times> Fields) \<times> build)"
  and structFieldLoop ::
      "(string \<times> string \<times> gotype) list \<Rightarrow> build \<Rightarrow> Fields \<Rightarrow> panic + (Fields \<times> build)"
where
  "createGraphQlFieldHierarchy t st =
     (case typesMap st (Name t) of
        Some knownType \<Rightarrow> Inr (knownType, st)
      | None \<Rightarrow>
          (if t = typeTime then Inr ((Some GFloat, Map.empty), st)
           else
             (case t of
                FuncT p n ins outs \<Rightarrow>
                  (case outs of
                     [] \<Rightarrow> Inl OutIndexOutOfBounds
                   | returnType # others \<Rightarrow>
                       (if Kind returnType = KInterface then Inr ((None, Map.empty), st)
                        else createGraphQlFieldHierarchy returnType st))
              | StructT p n vfs \<Rightarrow>
                  (case structFieldLoop vfs st Map.empty of
                     Inl e \<Rightarrow> Inl e
                   | Inr (flds, st') \<Rightarrow>
                       (let ob = GObject (length (objects st'))
                        in Inr ((Some ob, flds),
                                st'\<lparr>objects := objects st' @ [(n, flds)],
                                    typesMap := (typesMap st')(n \<mapsto> (Some ob, flds))\<rparr>)))
              | ArrayT p n len elem \<Rightarrow>
                  (case createGraphQlFieldHierarchy elem st of
                     Inl e \<Rightarrow> Inl e
                   | Inr ((nt, flds), st') \<Rightarrow> Inr ((Some (GList nt), flds), st'))
              | SliceT p n elem \<Rightarrow>
                  (case createGraphQlFieldHierarchy elem st of
                     Inl e \<Rightarrow> Inl e
                   | Inr ((nt, flds), st') \<Rightarrow> Inr ((Some (GList nt), flds), st'))
              | Basic p n k \<Rightarrow> Inr ((getBasicOutput t, Map.empty), st))))"
| "structFieldLoop [] st flds = Inr (flds, st)"
| "structFieldLoop ((sfName, sfPkg, sfType) # rest) st flds =
     (case createGraphQlFieldHierarchy sfType st of
        Inl e \<Rightarrow> Inl e
      | Inr ((structFieldType, subfields), st1) \<Rightarrow>
          (case structFieldType of
             None \<Rightarrow> structFieldLoop rest st1 flds
           | Some ty \<Rightarrow>
               (case kindArguments sfName sfType (filterArguments subfields) (filterMap st1) of
                  (args, fm) \<Rightarrow>
                    structFieldLoop rest (st1\<lparr>filterMap := fm\<rparr>)
                      (flds(ToLower sfName \<mapsto>
                         \<lparr>fName = sfName, fType = ty, fArgs = args,
                          structFieldName = sfName, structFieldTypeKind = Kind sfType\<rparr>)))))"

section \<open>Go values and the reflect operations the resolver uses\<close>

text \<open>
  A \<^verbatim>\<open>float64\<close> is modelled by the number it denotes, or one of the three
  special values. \<open>float64_eq\<close> is Go's \<^verbatim>\<open>==\<close> on \<^verbatim>\<open>float64\<close> (a NaN equals
  nothing). \<open>float64_of_int\<close> is the conversion \<^verbatim>\<open>float64(n)\<close> of an integer:
  the nearest number with a 53-bit significand, a tie going to the even significand.
\<close>

datatype float64 = Finite rat | PosInf | NegInf | NaN

fun float64_eq :: "float64 \<Rightarrow> float64 \<Rightarrow> bool" where
  "float64_eq (Finite a) (Finite b) = (a = b)"
| "float64_eq PosInf PosInf = True"
| "float64_eq NegInf NegInf = True"
| "float64_eq a b = False"

fun bitLen :: "nat \<Rightarrow> nat" where
  "bitLen n = (if n = 0 then 0 else Suc (bitLen (n div 2)))"

definition roundToEven53 :: "nat \<Rightarrow> nat" where
  "roundToEven53 a =
     (let e = bitLen a - 53;
          q = a div 2 ^ e;
          r = a mod 2 ^ e
      in (if 2 ^ e < 2 * r \<or> (2 * r = 2 ^ e \<and> odd q) then q + 1 else q) * 2 ^ e)"

definition float64_of_int :: "int \<Rightarrow> float64" where
  "float64_of_int n = Finite (of_int (sgn n * int (roundToEven53 (nat \<bar>n\<bar>))))"

text \<open>Go's \<^verbatim>\<open>int\<close> is taken to be 64 bits wide: \<open>goInt\<close> wraps the result of the
  one addition that can overflow, \<^verbatim>\<open>i+limit\<close>. A length \<open>j\<close> is a non-negative
  \<^verbatim>\<open>int\<close>, so \<^verbatim>\<open>j-1\<close> cannot overflow, nor can \<^verbatim>\<open>i+1\<close> for an index
  \<open>i < j\<close>.\<close>

definition goInt :: "int \<Rightarrow> int" where
  "goInt x = signed_take_bit 63 x"

text \<open>\<^verbatim>\<open>Min\<close> (lines 375 to 380).\<close>

definition MinInt :: "int \<Rightarrow> int \<Rightarrow> int" where
  "MinInt x y = (if x < y then x else y)"

definition boolT :: gotype where "boolT = Basic [] ''bool'' KBool"
definition stringT :: gotype where "stringT = Basic [] ''string'' KString"
definition intT :: gotype where "intT = Basic [] ''int'' KInt"
definition int8T :: gotype where "int8T = Basic [] ''int8'' KInt8"
definition int16T :: gotype where "int16T = Basic [] ''int16'' KInt16"
definition int32T :: gotype where "int32T = Basic [] ''int32'' KInt32"
definition int64T :: gotype where "int64T = Basic [] ''int64'' KInt64"
definition uint8T :: gotype where "uint8T = Basic [] ''uint8'' KUint8"
definition uint64T :: gotype where "uint64T = Basic [] ''uint64'' KUint64"
definition float32T :: gotype where "float32T = Basic [] ''float32'' KFloat32"
definition float64T :: gotype where "float64T = Basic [] ''float64'' KFloat64"

text \<open>
  A Go value, as an \<^verbatim>\<open>interface{}\<close> holds it: \<open>VNil\<close> is the nil interface; a
  scalar carries its dynamic type (a named type such as \<^verbatim>\<open>type Color string\<close> is not
  the type \<^verbatim>\<open>string\<close>); a struct carries the \<^verbatim>\<open>PkgPath\<close> and name of its type and
  its fields, each with the field's \<^verbatim>\<open>PkgPath\<close> (empty exactly for an exported field);
  a \<^verbatim>\<open>time.Time\<close> is given by what its method \<^verbatim>\<open>UnixMilli()\<close> returns and by the
  name of its location; a slice and an array carry their type and elements; a function
  value is nil or the number of a function, which the parameter \<open>call\<close> of the resolver
  interprets; a \<^verbatim>\<open>map[string]interface{}\<close> lists its entries in the order in which a
  \<^verbatim>\<open>range\<close> visits them; \<open>VError\<close> is a non-nil \<^verbatim>\<open>error\<close> with its message;
  \<open>VOther\<close> is a value of any other type.
\<close>

datatype govalue =
    VNil
  | VBool gotype bool
  | VInt gotype int
  | VUint gotype int
  | VFloat gotype float64
  | VString gotype string
  | VStruct string string "(string \<times> string \<times> govalue) list"
  | VTime int string
  | VSlice gotype "govalue list"
  | VArray gotype "govalue list"
  | VFunc gotype "nat option"
  | VMap "(string \<times> govalue) list"
  | VError string
  | VOther gotype

text \<open>
  A \<^verbatim>\<open>reflect.Value\<close>: the value and the read-only flag, which is set on a value
  reached through an unexported struct field. \<open>RV ro VNil\<close> is the zero Value.
  Every operation panics where the reflect package documents that it does. A Value made
  by \<^verbatim>\<open>reflect.ValueOf\<close> is never addressable, and neither is a field or element
  reached from it, so \<^verbatim>\<open>Slice\<close> panics on every array it is given here.
\<close>

datatype rvalue = RV bool govalue

definition ValueOf :: "govalue \<Rightarrow> rvalue" where
  "ValueOf v = RV False v"

fun valueKind :: "govalue \<Rightarrow> kind" where
  "valueKind VNil = KInvalid"
| "valueKind (VBool t b) = Kind t"
| "valueKind (VInt t n) = Kind t"
| "valueKind (VUint t n) = Kind t"
| "valueKind (VFloat t x) = Kind t"
| "valueKind (VString t s) = Kind t"
| "valueKind (VStruct p n fs) = KStruct"
| "valueKind (VTime ms loc) = KStruct"
| "valueKind (VSlice t xs) = KSlice"
| "valueKind (VArray t xs) = KArray"
| "valueKind (VFunc t f) = KFunc"
| "valueKind (VMap m) = KMap"
| "valueKind (VError e) = KPointer"
| "valueKind (VOther t) = Kind t"

fun rKind :: "rvalue \<Rightarrow> kind" where
  "rKind (RV ro v) = valueKind v"

fun lookupField :: "(string \<Rightarrow> bool) \<Rightarrow> (string \<times> string \<times> govalue) list \<Rightarrow> (string \<times> string \<times> govalue) list" where
  "lookupField match [] = []"
| "lookupField match ((n, p, v) # rest) =
     (if match n then (n, p, v) # lookupField match rest else lookupField match rest)"

text \<open>\<^verbatim>\<open>FieldByNameFunc\<close>: the one field whose name satisfies \<open>match\<close>; the zero
  Value when no field or more than one does. \<^verbatim>\<open>FieldByName\<close> matches the name itself.\<close>

fun FieldByNameFunc :: "rvalue \<Rightarrow> (string \<Rightarrow> bool) \<Rightarrow> panic + rvalue" where
  "FieldByNameFunc (RV ro (VStruct sp sn fs)) match =
     (case lookupField match fs of
        [(n, p, v)] \<Rightarrow> Inr (RV (ro \<or> p \<noteq> []) v)
      | _ \<Rightarrow> Inr (RV False VNil))"
| "FieldByNameFunc (RV ro (VTime ms loc)) match =
     (if (match ''wall'' \<and> \<not> match ''ext'' \<and> \<not> match ''loc'')
         \<or> (\<not> match ''wall'' \<and> match ''ext'' \<and> \<not> match ''loc'')
         \<or> (\<not> match ''wall'' \<and> \<not> match ''ext'' \<and> match ''loc'')
      then Inr (RV True (VOther (Basic [] [] KInvalid)))
      else Inr (RV False VNil))"
| "FieldByNameFunc r match = Inl NotAStruct"

definition FieldByName :: "rvalue \<Rightarrow> string \<Rightarrow> panic + rvalue" where
  "FieldByName r name = FieldByNameFunc r (\<lambda>s. s = name)"

fun Interface :: "rvalue \<Rightarrow> panic + govalue" where
  "Interface (RV ro VNil) = Inl ZeroValue"
| "Interface (RV ro v) = (if ro then Inl ReadOnlyValue else Inr v)"

fun IsNil :: "rvalue \<Rightarrow> panic + bool" where
  "IsNil (RV ro (VFunc t f)) = Inr (f = None)"
| "IsNil (RV ro VNil) = Inl ZeroValue"
| "IsNil r = Inl NotNillable"

fun Len :: "rvalue \<Rightarrow> panic + int" where
  "Len (RV ro (VSlice t xs)) = Inr (int (length xs))"
| "Len (RV ro (VArray t xs)) = Inr (int (length xs))"
| "Len (RV ro (VString t s)) = Inr (int (length s))"
| "Len (RV ro (VMap m)) = Inr (int (length m))"
| "Len r = Inl NoLen"

text \<open>\<^verbatim>\<open>v.Index(i)\<close>: an element of a slice or of an array, or a byte of a string
  as a \<^verbatim>\<open>uint8\<close>; it panics out of range, and on a value of any other kind.\<close>

fun Index :: "rvalue \<Rightarrow> int \<Rightarrow> panic + rvalue" where
  "Index (RV ro (VSlice t xs)) i =
     (if 0 \<le> i \<and> i < int (length xs) then Inr (RV ro (xs ! nat i)) else Inl IndexOutOfRange)"
| "Index (RV ro (VArray t xs)) i =
     (if 0 \<le> i \<and> i < int (length xs) then Inr (RV ro (xs ! nat i)) else Inl IndexOutOfRange)"
| "Index (RV ro (VString t s)) i =
     (if 0 \<le> i \<and> i < int (length s) then Inr (RV ro (VUint uint8T (of_char (s ! nat i))))
      else Inl IndexOutOfRange)"
| "Index r i = Inl WrongKind"

text \<open>\<^verbatim>\<open>v.Slice(i, j)\<close>. The bound of a slice is its capacity, which is at least its
  length; the resolver never asks for more than the length, and the model takes the
  capacity to be the length.\<close>

fun Slice :: "rvalue \<Rightarrow> int \<Rightarrow> int \<Rightarrow> panic + rvalue" where
  "Slice (RV ro (VSlice t xs)) i j =
     (if i < 0 \<or> j < i \<or> int (length xs) < j then Inl SliceOutOfBounds
      else Inr (RV ro (VSlice t (take (nat (j - i)) (drop (nat i) xs)))))"
| "Slice (RV ro (VString t s)) i j =
     (if i < 0 \<or> j < i \<or> int (length s) < j then Inl SliceOutOfBounds
      else Inr (RV ro (VString t (take (nat (j - i)) (drop (nat i) s)))))"
| "Slice (RV ro (VArray t xs)) i j = Inl UnaddressableArray"
| "Slice r i j = Inl NotSliceable"

fun IntOf :: "rvalue \<Rightarrow> panic + int" where
  "IntOf (RV ro (VInt t n)) = Inr n"
| "IntOf r = Inl WrongKind"

fun UintOf :: "rvalue \<Rightarrow> panic + int" where
  "UintOf (RV ro (VUint t n)) = Inr n"
| "UintOf r = Inl WrongKind"

fun BoolOf :: "rvalue \<Rightarrow> panic + bool" where
  "BoolOf (RV ro (VBool t b)) = Inr b"
| "BoolOf r = Inl WrongKind"

fun FloatOf :: "rvalue \<Rightarrow> panic + float64" where
  "FloatOf (RV ro (VFloat t x)) = Inr x"
| "FloatOf r = Inl WrongKind"

text \<open>\<^verbatim>\<open>reflect.ValueOf(f).Call(args)\<close>: \<open>call n args\<close> is what calling function
  number \<open>n\<close> on \<open>args\<close> gives, a panic (of the call itself or of the function) or
  the results, each as its \<^verbatim>\<open>Interface()\<close>.\<close>

fun Call :: "(nat \<Rightarrow> govalue list \<Rightarrow> panic + govalue list) \<Rightarrow> govalue \<Rightarrow> govalue list \<Rightarrow> panic + govalue list" where
  "Call call (VFunc t (Some n)) args = call n args"
| "Call call f args = Inl CallPanic"

section \<open>The Resolve closure\<close>

text \<open>
  \<^verbatim>\<open>graphql.ResolveParams\<close>: the source value and the arguments of the field.
  A resolver returns a value and an error; the error is \<open>None\<close> for nil and the
  message otherwise. A panic of the resolver is \<open>Inl\<close>.
\<close>

record ResolveParams =
  Source :: govalue
  Args :: "string \<Rightarrow> govalue option"

text \<open>Lines 247 to 267: whether the filter value matches the member \<open>val\<close> of the
  element. The type switch takes its first branch exactly for a filter value of the
  type \<^verbatim>\<open>float64\<close>, and each type assertion on \<^verbatim>\<open>rv\<close> holds exactly for a value of
  the named predeclared type.\<close>

text \<open>Line 266: the comparison \<^verbatim>\<open>filterValue == val.Interface()\<close> of two interface
  values. Two values of different dynamic types are unequal. Two values of the same
  dynamic type make the comparison panic when that type is not comparable: the type of
  a slice, of a map or of a function, and here also a struct or an array that holds
  such a value. Two floating-point values of one type are compared as IEEE values.\<close>

fun comparableType :: "gotype \<Rightarrow> bool"
  and comparableFieldTypes :: "(string \<times> string \<times> gotype) list \<Rightarrow> bool" where
  "comparableType (Basic p n k) = (k \<noteq> KSlice \<and> k \<noteq> KMap \<and> k \<noteq> KFunc)"
| "comparableType (StructT p n fs) = comparableFieldTypes fs"
| "comparableType (SliceT p n e) = False"
| "comparableType (ArrayT p n len e) = comparableType e"
| "comparableType (FuncT p n ins outs) = False"
| "comparableFieldTypes [] = True"
| "comparableFieldTypes (f # fs) = (comparableType (snd (snd f)) \<and> comparableFieldTypes fs)"

fun comparableValue :: "govalue \<Rightarrow> bool"
  and comparableMembers :: "(string \<times> string \<times> govalue) list \<Rightarrow> bool"
  and comparableElements :: "govalue list \<Rightarrow> bool" where
  "comparableValue (VSlice t xs) = False"
| "comparableValue (VMap m) = False"
| "comparableValue (VFunc t f) = False"
| "comparableValue (VStruct p n fs) = comparableMembers fs"
| "comparableValue (VArray t xs) = (comparableType t \<and> comparableElements xs)"
| "comparableValue (VOther t) = comparableType t"
| "comparableValue VNil = True"
| "comparableValue (VBool t b) = True"
| "comparableValue (VInt t n) = True"
| "comparableValue (VUint t n) = True"
| "comparableValue (VFloat t x) = True"
| "comparableValue (VString t s) = True"
| "comparableValue (VTime ms loc) = True"
| "comparableValue (VError e) = True"
| "comparableMembers [] = True"
| "comparableMembers (f # fs) = (comparableValue (snd (snd f)) \<and> comparableMembers fs)"
| "comparableElements [] = True"
| "comparableElements (x # xs) = (comparableValue x \<and> comparableElements xs)"

fun sameDynamicType :: "govalue \<Rightarrow> govalue \<Rightarrow> bool" where
  "sameDynamicType (VSlice t xs) (VSlice t' ys) = (t = t')"
| "sameDynamicType (VArray t xs) (VArray t' ys) = (t = t')"
| "sameDynamicType (VFunc t f) (VFunc t' g) = (t = t')"
| "sameDynamicType (VMap m) (VMap m') = True"
| "sameDynamicType (VStruct p n fs) (VStruct p' n' fs') =
     (p = p' \<and> n = n' \<and> map fst fs = map fst fs')"
| "sameDynamicType (VOther t) (VOther t') = (t = t')"
| "sameDynamicType a b = False"

definition interfaceEq :: "govalue \<Rightarrow> govalue \<Rightarrow> panic + bool" where
  "interfaceEq a b =
     (if sameDynamicType a b \<and> \<not> comparableValue a \<and> \<not> comparableValue b
      then Inl UncomparableType
      else Inr (case (a, b) of
                  (VFloat t x, VFloat t' y) \<Rightarrow> t = t' \<and> float64_eq x y
                | _ \<Rightarrow> a = b))"

definition filterMatch :: "govalue \<Rightarrow> rvalue \<Rightarrow> panic + bool" where
  "filterMatch filterValue val =
     (case Interface val of
        Inl e \<Rightarrow> Inl e
      | Inr rv \<Rightarrow>
          (case filterValue of
             VFloat ft fv \<Rightarrow>
               (if ft = float64T then
                  (case rv of
                     VFloat t y \<Rightarrow> Inr (if t = float64T then float64_eq fv y else False)
                   | VInt t y \<Rightarrow>
                       Inr (if t = intT then float64_eq fv (float64_of_int y)
                            else if t = int8T then float64_eq fv (float64_of_int y)
                            else if t = int32T then float64_eq fv (float64_of_int y)
                            else if t = int64T then float64_eq fv (float64_of_int y)
                            else False)
                   | _ \<Rightarrow> Inr False)
                else interfaceEq filterValue rv)
           | _ \<Rightarrow> interfaceEq filterValue rv))"

text \<open>Lines 241 to 272: the loop over the members of the filter, in the order in which
  the \<^verbatim>\<open>range\<close> visits them. \<open>Inr True\<close> when a member matched (the closure
  returns from inside the loop), \<open>Inr False\<close> when the members are used up.\<close>

fun filterLoop :: "rvalue \<Rightarrow> (string \<times> govalue) list \<Rightarrow> panic + bool" where
  "filterLoop element [] = Inr False"
| "filterLoop element ((fieldName, filterValue) # rest) =
     (case FieldByNameFunc element (\<lambda>s. ToLower s = fieldName) of
        Inl e \<Rightarrow> Inl e
      | Inr val \<Rightarrow>
          (case filterMatch filterValue val of
             Inl e \<Rightarrow> Inl e
           | Inr match \<Rightarrow> if match then Inr True else filterLoop element rest))"

text \<open>Lines 237 to 276: the loop over the elements, from index \<open>i\<close> on.\<close>

function whereLoop :: "rvalue \<Rightarrow> govalue \<Rightarrow> int \<Rightarrow> int \<Rightarrow> panic + (govalue \<times> string option)" where
  "whereLoop r filterOne i j =
     (if i < j then
        (case Index r i of
           Inl e \<Rightarrow> Inl e
         | Inr element \<Rightarrow>
             (case filterOne of
                VMap filterMembers \<Rightarrow>
                  (case filterLoop element filterMembers of
                     Inl e \<Rightarrow> Inl e
                   | Inr True \<Rightarrow>
                       (case Slice r i (i + 1) of
                          Inl e \<Rightarrow> Inl e
                        | Inr s \<Rightarrow>
                            (case Interface s of Inl e \<Rightarrow> Inl e | Inr v \<Rightarrow> Inr (v, None)))
                   | Inr False \<Rightarrow> whereLoop r filterOne (i + 1) j)
              | _ \<Rightarrow> Inl FailedTypeAssertion))
      else
        (case Slice r 0 0 of
           Inl e \<Rightarrow> Inl e
         | Inr s \<Rightarrow> (case Interface s of Inl e \<Rightarrow> Inl e | Inr v \<Rightarrow> Inr (v, None))))"
  by pat_completeness auto
termination
  by (relation "measure (\<lambda>(r, filterOne, i, j). nat (j - i))") auto

fun assertInt :: "govalue \<Rightarrow> panic + int" where
  "assertInt (VInt t n) = (if t = intT then Inr n else Inl FailedTypeAssertion)"
| "assertInt v = Inl FailedTypeAssertion"

text \<open>Lines 229 to 291: a member whose declared kind is slice or array.\<close>

definition resolveList :: "rvalue \<Rightarrow> ResolveParams \<Rightarrow> panic + (govalue \<times> string option)" where
  "resolveList r p =
     (case Len r of
        Inl e \<Rightarrow> Inl e
      | Inr j \<Rightarrow>
          (case Args p ''where'' of
             Some filterOne \<Rightarrow> whereLoop r filterOne 0 j
           | None \<Rightarrow>
               (case (case Args p ''skip'' of
                        None \<Rightarrow> Inr 0
                      | Some skip \<Rightarrow>
                          (case assertInt skip of
                             Inl e \<Rightarrow> Inl e
                           | Inr sk \<Rightarrow> Inr (MinInt sk (j - 1)))) of
                  Inl e \<Rightarrow> Inl e
                | Inr i \<Rightarrow>
                    (case (case Args p ''limit'' of
                             None \<Rightarrow> Inr j
                           | Some limit \<Rightarrow>
                               (case assertInt limit of
                                  Inl e \<Rightarrow> Inl e
                                | Inr lm \<Rightarrow> Inr (MinInt (goInt (i + lm)) j))) of
                       Inl e \<Rightarrow> Inl e
                     | Inr j' \<Rightarrow>
                         (case Slice r i j' of
                            Inl e \<Rightarrow> Inl e
                          | Inr s \<Rightarrow>
                              (case Interface s of
                                 Inl e \<Rightarrow> Inl e
                               | Inr v \<Rightarrow> Inr (v, None)))))))"

fun assertError :: "govalue \<Rightarrow> panic + string" where
  "assertError (VError e) = Inr e"
| "assertError v = Inl FailedTypeAssertion"

text \<open>Lines 216 to 228: a member whose declared kind is func.\<close>

definition resolveFunc ::
  "(nat \<Rightarrow> govalue list \<Rightarrow> panic + govalue list) \<Rightarrow> rvalue \<Rightarrow> ResolveParams
     \<Rightarrow> panic + (govalue \<times> string option)"
where
  "resolveFunc call r p =
     (case IsNil r of
        Inl e \<Rightarrow> Inl e
      | Inr True \<Rightarrow> Inr (VNil, None)
      | Inr False \<Rightarrow>
          (case Interface r of
             Inl e \<Rightarrow> Inl e
           | Inr f \<Rightarrow>
               (case Call call f [Source p] of
                  Inl e \<Rightarrow> Inl e
                | Inr results \<Rightarrow>
                    (if length results < 2 then Inl IndexOutOfRange
                     else if results ! 1 \<noteq> VNil then
                       (case assertError (results ! 1) of
                          Inl e \<Rightarrow> Inl e
                        | Inr err \<Rightarrow> Inr (results ! 0, Some err))
                     else Inr (results ! 0, None)))))"

text \<open>Lines 295 to 324: the switch on the kind of the member's value. Every
  \<^verbatim>\<open>time.Time\<close> is a \<open>VTime\<close>, so \<^verbatim>\<open>r.Type() == typeTime\<close> holds exactly for
  a \<open>VTime\<close>.\<close>

definition resolveKind :: "rvalue \<Rightarrow> panic + (govalue \<times> string option)" where
  "resolveKind r =
     (if rKind r \<in> {KInt, KInt8, KInt16, KInt32, KInt64} then
        (case IntOf r of Inl e \<Rightarrow> Inl e | Inr n \<Rightarrow> Inr (VFloat float64T (float64_of_int n), None))
      else if rKind r \<in> {KUint, KUint8, KUint16, KUint32, KUint64} then
        (case UintOf r of Inl e \<Rightarrow> Inl e | Inr n \<Rightarrow> Inr (VFloat float64T (float64_of_int n), None))
      else if rKind r = KBool then
        (case BoolOf r of Inl e \<Rightarrow> Inl e | Inr b \<Rightarrow> Inr (VBool boolT b, None))
      else if rKind r \<in> {KFloat32, KFloat64} then
        (case FloatOf r of Inl e \<Rightarrow> Inl e | Inr x \<Rightarrow> Inr (VFloat float64T x, None))
      else if rKind r = KString then
        (case Interface r of Inl e \<Rightarrow> Inl e | Inr v \<Rightarrow> Inr (v, None))
      else if rKind r = KStruct then
        (case Interface r of
           Inl e \<Rightarrow> Inl e
         | Inr v \<Rightarrow>
             (case v of
                VTime ms loc \<Rightarrow> Inr (VFloat float64T (float64_of_int ms), None)
              | _ \<Rightarrow> Inr (v, None)))
      else Inr (VNil, Some ''unknown type''))"

text \<open>Lines 213 to 325: the closure, for the captured \<^verbatim>\<open>structFieldName\<close> and
  \<^verbatim>\<open>structFieldTypeKind\<close>.\<close>

definition Resolve ::
  "(nat \<Rightarrow> govalue list \<Rightarrow> panic + govalue list) \<Rightarrow> string \<Rightarrow> kind \<Rightarrow> ResolveParams
     \<Rightarrow> panic + (govalue \<times> string option)"
where
  "Resolve call sfName sfKind p =
     (case FieldByName (ValueOf (Source p)) sfName of
        Inl e \<Rightarrow> Inl e
      | Inr r \<Rightarrow>
          (if sfKind = KFunc then resolveFunc call r p
           else if sfKind = KSlice \<or> sfKind = KArray then resolveList r p
           else resolveKind r))"

section \<open>Executing a query\<close>

text \<open>
  The query language and its executor are the graphql package's; the model takes them
  as parameters. \<open>Do schema query\<close> is \<^verbatim>\<open>graphql.Do\<close>; its result holds the data
  and the list of errors, each error a \<^verbatim>\<open>gqlerrors.FormattedError\<close> with its
  message and what its \<^verbatim>\<open>OriginalError()\<close> returns (\<open>None\<close> for nil).
  \<open>NewSchema\<close> is \<^verbatim>\<open>graphql.NewSchema\<close> and \<open>MarshalIndent\<close> is
  \<^verbatim>\<open>json.MarshalIndent\<close>; both return an error (\<open>Inl\<close>) or their result. A Go
  function that returns a value and an error returns the pair here, \<open>None\<close> for nil.
\<close>

datatype formattedError = FormattedError string "string option"

fun OriginalError :: "formattedError \<Rightarrow> string option" where
  "OriginalError (FormattedError message original) = original"

record 'd gqlResult =
  Data :: 'd
  Errors :: "formattedError list"

definition executeQuery ::
  "('s \<Rightarrow> string \<Rightarrow> 'd gqlResult) \<Rightarrow> string \<Rightarrow> 's \<Rightarrow> 'd gqlResult option \<times> string option"
where
  "executeQuery Do query schema =
     (let result = Do schema query
      in if length (Errors result) > 0 then (None, OriginalError (Errors result ! 0))
         else (Some result, None))"

text \<open>The configuration handed to \<^verbatim>\<open>graphql.NewSchema\<close>: the root object with
  its name and its one field (the field's name, its type and the value its resolver
  returns), and the objects made while the type was traversed.\<close>

record schemaConfig =
  queryName :: string
  queryField :: string
  queryFieldType :: "gqlOutput option"
  queryFieldValue :: govalue
  schemaObjects :: "(string \<times> Fields) list"

definition emptyBuild :: build where
  "emptyBuild = \<lparr>typesMap = Map.empty, filterMap = Map.empty, objects = []\<rparr>"

text \<open>\<^verbatim>\<open>QueryStructViaGraphql\<close> (lines 345 to 372). \<open>T\<close> is the type parameter,
  which is what \<^verbatim>\<open>reflect.TypeOf(o)\<close> returns.\<close>

definition QueryStructViaGraphql ::
  "(schemaConfig \<Rightarrow> string + 's) \<Rightarrow> ('s \<Rightarrow> string \<Rightarrow> 'd gqlResult)
     \<Rightarrow> ('d gqlResult option \<Rightarrow> string \<Rightarrow> string \<Rightarrow> string + string)
     \<Rightarrow> string \<Rightarrow> gotype \<Rightarrow> govalue \<Rightarrow> string \<Rightarrow> panic + (string option \<times> string option)"
where
  "QueryStructViaGraphql NewSchema Do MarshalIndent rootField T ob query =
     (case createGraphQlFieldHierarchy T emptyBuild of
        Inl e \<Rightarrow> Inl e
      | Inr ((typ, flds), st) \<Rightarrow>
          (case NewSchema \<lparr>queryName = ''RootQuery'', queryField = rootField,
                           queryFieldType = typ, queryFieldValue = ob,
                           schemaObjects = objects st\<rparr> of
             Inl err \<Rightarrow> Inr (None, Some err)
           | Inr schema \<Rightarrow>
               (case executeQuery Do query schema of
                  (result, Some err) \<Rightarrow> Inr (None, Some err)
                | (result, None) \<Rightarrow>
                    (case MarshalIndent result [] ''  '' of
                       Inl err \<Rightarrow> Inr (None, Some err)
                     | Inr b \<Rightarrow> Inr (Some b, None)))))"

text \<open>One member of the filter tried on one element, as the body of the loop over the
  filter does it (lines 243 to 267): a panic, or whether the member matched.\<close>

definition memberMatches :: "govalue \<Rightarrow> string \<times> govalue \<Rightarrow> panic + bool" where
  "memberMatches element m =
     (case FieldByNameFunc (RV False element) (\<lambda>s. ToLower s = fst m) of
        Inl e \<Rightarrow> Inl e
      | Inr val \<Rightarrow> filterMatch (snd m) val)"

section \<open>Example inputs\<close>

text \<open>Collaborators for the examples: a \<^verbatim>\<open>NewSchema\<close> that accepts every
  configuration, a \<^verbatim>\<open>Do\<close> that reports two errors and one that reports none, and a
  \<^verbatim>\<open>MarshalIndent\<close> that accepts the two-space indent only.\<close>

definition exampleSchema :: "schemaConfig \<Rightarrow> string + schemaConfig" where
  "exampleSchema c = Inr c"

definition exampleFailing :: "schemaConfig \<Rightarrow> string \<Rightarrow> unit gqlResult" where
  "exampleFailing s q =
     \<lparr>Data = (), Errors = [FormattedError ''first'' (Some ''e1''), FormattedError ''second'' (Some ''e2'')]\<rparr>"

definition exampleSucceeding :: "schemaConfig \<Rightarrow> string \<Rightarrow> unit gqlResult" where
  "exampleSucceeding s q = \<lparr>Data = (), Errors = []\<rparr>"

definition exampleMarshal :: "unit gqlResult option \<Rightarrow> string \<Rightarrow> string \<Rightarrow> string + string" where
  "exampleMarshal r pre ind = (if ind = ''  '' then Inr ''{}'' else Inl ''indent'')"

text \<open>A dog in the manner of \<^verbatim>\<open>main.go\<close>, with members of further kinds, and the
  functions its computed members hold: number 0 returns no error, number 1 returns one.\<close>

definition catT :: gotype where
  "catT = StructT ''main'' ''Cat'' [(''Name'', [], stringT), (''Age'', [], intT), (''Color'', [], stringT)]"

definition catsT :: gotype where
  "catsT = SliceT [] [] catT"

definition enemiesT :: gotype where
  "enemiesT = FuncT [] [] [Basic ''main'' ''Dog'' KStruct] [catsT, Basic [] ''error'' KInterface]"

definition exampleDog :: govalue where
  "exampleDog = VStruct ''main'' ''Dog''
     [(''Name'', [], VString stringT ''Bello''),
      (''Age'', [], VInt intT 2),
      (''Big'', [], VInt int64T (2 ^ 53 + 1)),
      (''Born'', [], VTime 1700000000123 ''UTC''),
      (''Enemies'', [], VFunc enemiesT (Some 0)),
      (''Rivals'', [], VFunc enemiesT (Some 1)),
      (''Allies'', [], VFunc enemiesT None)]"

fun exampleCall :: "nat \<Rightarrow> govalue list \<Rightarrow> panic + govalue list" where
  "exampleCall n args =
     (if n = 0 then Inr [VSlice catsT [], VNil]
      else if n = 1 then Inr [VSlice catsT [], VError ''no rivals'']
      else Inl CallPanic)"


definition exampleCat :: "string \<Rightarrow> int \<Rightarrow> string \<Rightarrow> govalue" where
  "exampleCat name age color = VStruct ''main'' ''Cat''
     [(''Name'', [], VString stringT name), (''Age'', [], VInt intT age),
      (''Color'', [], VString stringT color)]"

definition exampleShelter :: govalue where
  "exampleShelter = VStruct ''main'' ''Shelter''
     [(''Cats'', [], VSlice catsT
         [exampleCat ''Maru'' 3 ''Black'', exampleCat ''Hana'' 1 ''White'',
          exampleCat ''Lily'' 2 ''Black'']),
      (''Pens'', [], VArray (ArrayT [] [] 3 catT)
         [exampleCat ''Maru'' 3 ''Black'', exampleCat ''Hana'' 1 ''White'',
          exampleCat ''Lily'' 2 ''Black'']),
      (''Kittens'', [], VSlice (SliceT [] [] (StructT ''main'' ''Kitten'' [(''Age'', [], int16T)]))
         [VStruct ''main'' ''Kitten'' [(''Age'', [], VInt int16T 3)]]),
      (''Tags'', [], VSlice (SliceT [] [] intT)
         [VInt intT 10, VInt intT 11, VInt intT 12, VInt intT 13, VInt intT 14]),
      (''Marks'', [], VArray (ArrayT [] [] 2 intT) [VInt intT 10, VInt intT 11]),
      (''Notes'', [], VSlice (SliceT [] [] intT) [])]"

text \<open>A computed member whose first result is an interface, and a pointer.\<close>

definition anyFuncT :: gotype where
  "anyFuncT = FuncT [] [] [Basic ''main'' ''Owner'' KStruct]
                [Basic [] [] KInterface, Basic [] ''error'' KInterface]"

definition pointerT :: gotype where
  "pointerT = Basic [] [] KPointer"

text \<open>What a traversal built, read off its result: the names given to
  \<^verbatim>\<open>graphql.NewObject\<close> in the order of the calls, the type of a field of the
  returned field map, the type of a field of the \<open>i\<close>-th object, and an argument of a
  field of the returned field map.\<close>

definition builtObjectNames ::
  "panic + ((gqlOutput option \<times> Fields) \<times> build) \<Rightarrow> string list" where
  "builtObjectNames r = (case r of Inl e \<Rightarrow> [] | Inr (res, st) \<Rightarrow> map fst (objects st))"

definition builtFieldType ::
  "panic + ((gqlOutput option \<times> Fields) \<times> build) \<Rightarrow> string \<Rightarrow> gqlOutput option" where
  "builtFieldType r f =
     (case r of
        Inl e \<Rightarrow> None
      | Inr ((ty, flds), st) \<Rightarrow> (case flds f of None \<Rightarrow> None | Some fd \<Rightarrow> Some (fType fd)))"

definition builtObjectFieldType ::
  "panic + ((gqlOutput option \<times> Fields) \<times> build) \<Rightarrow> nat \<Rightarrow> string \<Rightarrow> gqlOutput option" where
  "builtObjectFieldType r i f =
     (case r of
        Inl e \<Rightarrow> None
      | Inr (res, st) \<Rightarrow>
          (if i < length (objects st)
           then (case snd (objects st ! i) f of None \<Rightarrow> None | Some fd \<Rightarrow> Some (fType fd))
           else None))"

definition builtArgument ::
  "panic + ((gqlOutput option \<times> Fields) \<times> build) \<Rightarrow> string \<Rightarrow> string \<Rightarrow> argumentConfig option" where
  "builtArgument r f a =
     (case r of
        Inl e \<Rightarrow> None
      | Inr ((ty, flds), st) \<Rightarrow> (case flds f of None \<Rightarrow> None | Some fd \<Rightarrow> fArgs fd a))"

text \<open>The struct \<^verbatim>\<open>Dog\<close> of \<^verbatim>\<open>main.go\<close>; a struct with a slice of structs, a
  slice of scalars and a slice of structs that have no scalar member; and two structs of
  different packages that are both named \<^verbatim>\<open>Config\<close>, one holding the other.\<close>

definition dogT :: gotype where
  "dogT = StructT ''main'' ''Dog''
     [(''Name'', [], stringT), (''Age'', [], intT), (''Color'', [], stringT),
      (''Friend'', [], catT), (''Enemies'', [], enemiesT)]"

definition boxT :: gotype where
  "boxT = StructT ''main'' ''Box'' [(''Inner'', [], catT)]"

definition shelterT :: gotype where
  "shelterT = StructT ''main'' ''Shelter''
     [(''Cats'', [], catsT), (''Tags'', [], SliceT [] [] intT), (''Boxes'', [], SliceT [] [] boxT)]"

definition dbConfigT :: gotype where
  "dbConfigT = StructT ''db'' ''Config'' [(''Host'', [], stringT)]"

definition appConfigT :: gotype where
  "appConfigT = StructT ''app'' ''Config'' [(''Name'', [], stringT), (''DB'', [], dbConfigT)]"

definition serviceT :: gotype where
  "serviceT = StructT ''main'' ''Service'' [(''App'', [], appConfigT), (''Store'', [], dbConfigT)]"

text \<open>The field map and the state that the traversal of \<^verbatim>\<open>Cat\<close> leaves.\<close>

definition exampleCatFields :: Fields where
  "exampleCatFields =
     [''name'' \<mapsto> \<lparr>fName = ''Name'', fType = GString, fArgs = Map.empty,
                  structFieldName = ''Name'', structFieldTypeKind = KString\<rparr>,
      ''age'' \<mapsto> \<lparr>fName = ''Age'', fType = GFloat, fArgs = Map.empty,
                 structFieldName = ''Age'', structFieldTypeKind = KInt\<rparr>,
      ''color'' \<mapsto> \<lparr>fName = ''Color'', fType = GString, fArgs = Map.empty,
                   structFieldName = ''Color'', structFieldTypeKind = KString\<rparr>]"

definition exampleCatBuild :: build where
  "exampleCatBuild =
     \<lparr>typesMap = [''Cat'' \<mapsto> (Some (GObject 0), exampleCatFields)],
      filterMap = Map.empty,
      objects = [(''Cat'', exampleCatFields)]\<rparr>"

text \<open>A struct whose members are all unexported: a computed member that is set and one
  that is nil, a \<^verbatim>\<open>time.Time\<close> and a slice of scalars. Functions that return a
  single result (number 0), or a second result that is no error (number 1).\<close>

definition exampleKennel :: govalue where
  "exampleKennel = VStruct ''main'' ''kennel''
     [(''enemies'', ''main'', VFunc enemiesT (Some 0)),
      (''allies'', ''main'', VFunc enemiesT None),
      (''born'', ''main'', VTime 1700000000123 ''UTC''),
      (''tags'', ''main'', VSlice (SliceT [] [] intT) [VInt intT 10, VInt intT 11, VInt intT 12])]"

fun exampleCallShort :: "nat \<Rightarrow> govalue list \<Rightarrow> panic + govalue list" where
  "exampleCallShort n args =
     (if n = 0 then Inr [VSlice catsT []]
      else if n = 1 then Inr [VSlice catsT [], VString stringT ''no rivals'']
      else Inl CallPanic)"

text \<open>Types whose name is in the cache when the traversal reaches them: a
  \<^verbatim>\<open>time.Time\<close> after a struct \<^verbatim>\<open>clock.Time\<close>; a map type named
  \<^verbatim>\<open>Config\<close> after the struct \<^verbatim>\<open>db.Config\<close>; and a function type named
  \<^verbatim>\<open>Handler\<close>, whose first result is an interface, after a struct
  \<^verbatim>\<open>lib.Handler\<close>. And a struct that holds, after a member that is omitted, a
  function type without results.\<close>

definition exampleEventT :: gotype where
  "exampleEventT = StructT ''main'' ''Event''
     [(''Slot'', [], StructT ''clock'' ''Time'' [(''Hour'', [], intT)]), (''At'', [], typeTime)]"

definition exampleRootT :: gotype where
  "exampleRootT = StructT ''main'' ''Root''
     [(''DB'', [], dbConfigT), (''Extra'', [], Basic ''main'' ''Config'' KMap)]"

definition exampleHandlersT :: gotype where
  "exampleHandlersT = StructT ''main'' ''Handlers''
     [(''Lib'', [], StructT ''lib'' ''Handler'' [(''ID'', [], intT)]),
      (''Run'', [], FuncT ''main'' ''Handler'' [Basic ''main'' ''Handlers'' KStruct]
                      [Basic [] [] KInterface, Basic [] ''error'' KInterface])]"

definition exampleBrokenT :: gotype where
  "exampleBrokenT = StructT ''main'' ''Broken''
     [(''Any'', [], anyFuncT), (''Bad'', [], FuncT [] [] [] [])]"

text \<open>The field map and the state that the traversal of a struct \<^verbatim>\<open>Owner\<close> with
  the members \<^verbatim>\<open>Name\<close> and \<^verbatim>\<open>Age\<close> leaves.\<close>

definition exampleOwnerFields :: Fields where
  "exampleOwnerFields =
     [''name'' \<mapsto> \<lparr>fName = ''Name'', fType = GString, fArgs = Map.empty,
                  structFieldName = ''Name'', structFieldTypeKind = KString\<rparr>,
      ''age'' \<mapsto> \<lparr>fName = ''Age'', fType = GFloat, fArgs = Map.empty,
                 structFieldName = ''Age'', structFieldTypeKind = KInt\<rparr>]"

definition exampleOwnerBuild :: build where
  "exampleOwnerBuild =
     \<lparr>typesMap = [''Owner'' \<mapsto> (Some (GObject 0), exampleOwnerFields)],
      filterMap = Map.empty,
      objects = [(''Owner'', exampleOwnerFields)]\<rparr>"

text \<open>
  For the invariant of the cache: the names of the struct types that a traversal of a
  type can reach; a type is properly named when no struct type in it holds, at any depth
  the traversal reaches, a struct type of its own name; a state is registered when the
  objects made so far have distinct names, each with an entry in the cache; and a type
  builds well when its traversal keeps a registered state registered and adds cache
  entries only under the names of the structs it reaches.
\<close>

fun structNames :: "gotype \<Rightarrow> string set"
  and structNamesList :: "(string \<times> string \<times> gotype) list \<Rightarrow> string set" where
  "structNames (Basic p n k) = {}"
| "structNames (StructT p n vfs) = insert n (structNamesList vfs)"
| "structNames (SliceT p n e) = structNames e"
| "structNames (ArrayT p n len e) = structNames e"
| "structNames (FuncT p n ins []) = {}"
| "structNames (FuncT p n ins (r # others)) = structNames r"
| "structNamesList [] = {}"
| "structNamesList ((a, b, t) # rest) = structNames t \<union> structNamesList rest"

fun properlyNamed :: "gotype \<Rightarrow> bool"
  and properlyNamedList :: "(string \<times> string \<times> gotype) list \<Rightarrow> bool" where
  "properlyNamed (Basic p n k) = True"
| "properlyNamed (StructT p n vfs) = (n \<notin> structNamesList vfs \<and> properlyNamedList vfs)"
| "properlyNamed (SliceT p n e) = properlyNamed e"
| "properlyNamed (ArrayT p n len e) = properlyNamed e"
| "properlyNamed (FuncT p n ins []) = True"
| "properlyNamed (FuncT p n ins (r # others)) = properlyNamed r"
| "properlyNamedList [] = True"
| "properlyNamedList ((a, b, t) # rest) = (properlyNamed t \<and> properlyNamedList rest)"

definition registered :: "build \<Rightarrow> bool" where
  "registered st =
     (distinct (map fst (objects st)) \<and> set (map fst (objects st)) \<subseteq> dom (typesMap st))"

definition builds_well :: "gotype \<Rightarrow> bool" where
  "builds_well t =
     (\<forall>st r st'. properlyNamed t \<longrightarrow> registered st \<longrightarrow>
        createGraphQlFieldHierarchy t st = Inr (r, st') \<longrightarrow>
        registered st' \<and> dom (typesMap st') \<subseteq> dom (typesMap st) \<union> structNames t)"

section \<open>Facts about the model\<close>

lemma getBasicOutput_int64: "getBasicOutput (Basic [] ''int64'' KInt64) = Some GFloat"
  by simp

subsection \<open>Executing a query: the first error only\<close>

text \<open>
  Claim C10. When \<^verbatim>\<open>graphql.Do\<close> reports one or more errors, \<^verbatim>\<open>executeQuery\<close>
  returns no result and the original error of the first one, whatever the remaining
  errors \<open>es\<close> are, and \<^verbatim>\<open>QueryStructViaGraphql\<close> fails with exactly that error.
  When it reports none, \<^verbatim>\<open>executeQuery\<close> returns the result without error, and
  \<^verbatim>\<open>QueryStructViaGraphql\<close> returns what \<^verbatim>\<open>json.MarshalIndent\<close> makes of the result
  with the empty prefix and the two-space indent.
\<close>

theorem execute_first_error_only:
  assumes build: "createGraphQlFieldHierarchy T emptyBuild = Inr ((typ, flds), st)"
    and schema: "NewSchema \<lparr>queryName = ''RootQuery'', queryField = rootField,
                   queryFieldType = typ, queryFieldValue = ob, schemaObjects = objects st\<rparr> = Inr schema"
  shows "(Errors (Do schema query) = e # es \<longrightarrow>
            executeQuery Do query schema = (None, OriginalError e) \<and>
            (OriginalError e = Some err \<longrightarrow>
               QueryStructViaGraphql NewSchema Do MarshalIndent rootField T ob query = Inr (None, Some err)))
       \<and> (Errors (Do schema query) = [] \<longrightarrow>
            executeQuery Do query schema = (Some (Do schema query), None) \<and>
            (MarshalIndent (Some (Do schema query)) [] ''  '' = Inr b \<longrightarrow>
               QueryStructViaGraphql NewSchema Do MarshalIndent rootField T ob query = Inr (Some b, None)))"
  using build schema
  by (simp add: QueryStructViaGraphql_def executeQuery_def Let_def)

theorem execute_first_error_only_witness:
  "QueryStructViaGraphql exampleSchema exampleFailing exampleMarshal ''cats'' stringT
       (VString stringT ''x'') ''{cats}''
     = Inr (None, Some ''e1'')
   \<and> QueryStructViaGraphql exampleSchema exampleSucceeding exampleMarshal ''cats'' stringT
       (VString stringT ''x'') ''{cats}''
     = Inr (Some ''{}'', None)"
proof -
  have build: "createGraphQlFieldHierarchy stringT emptyBuild = Inr ((Some GString, Map.empty), emptyBuild)"
    by (simp add: stringT_def emptyBuild_def typeTime_def)
  have schema: "exampleSchema \<lparr>queryName = ''RootQuery'', queryField = ''cats'',
      queryFieldType = Some GString, queryFieldValue = VString stringT ''x'',
      schemaObjects = objects emptyBuild\<rparr>
      = Inr \<lparr>queryName = ''RootQuery'', queryField = ''cats'',
      queryFieldType = Some GString, queryFieldValue = VString stringT ''x'',
      schemaObjects = objects emptyBuild\<rparr>"
    by (simp add: exampleSchema_def)
  show ?thesis
    using execute_first_error_only [where NewSchema = exampleSchema and Do = exampleFailing
            and query = "''{cats}''" and e = "FormattedError ''first'' (Some ''e1'')"
            and es = "[FormattedError ''second'' (Some ''e2'')]"
            and err = "''e1''" and MarshalIndent = exampleMarshal, OF build schema]
          execute_first_error_only [where NewSchema = exampleSchema and Do = exampleSucceeding
            and query = "''{cats}''" and MarshalIndent = exampleMarshal and b = "''{}''",
            OF build schema]
    by (simp add: exampleFailing_def exampleSucceeding_def exampleMarshal_def)
qed

subsection \<open>Reading a member; the conversion to float64\<close>

lemma FieldByName_struct:
  "lookupField (\<lambda>s. s = name) fs = [(n, pk, v)] \<Longrightarrow>
   FieldByName (ValueOf (VStruct sp sn fs)) name = Inr (RV (pk \<noteq> []) v)"
  by (simp add: FieldByName_def ValueOf_def)

lemma bitLen_le: "a < 2 ^ k \<Longrightarrow> bitLen a \<le> k"
proof (induction k arbitrary: a)
  case 0
  then show ?case by simp
next
  case (Suc k)
  show ?case
  proof (cases "a = 0")
    case True
    then show ?thesis by simp
  next
    case False
    from Suc.prems have "a div 2 < 2 ^ k" by simp
    then have "bitLen (a div 2) \<le> k" by (rule Suc.IH)
    with False show ?thesis by (subst bitLen.simps) simp
  qed
qed

lemma roundToEven53_small: "a < 2 ^ 53 \<Longrightarrow> roundToEven53 a = a"
  using bitLen_le [of a 53] by (simp add: roundToEven53_def Let_def)

lemma roundToEven53_safe: "a \<le> 2 ^ 53 \<Longrightarrow> roundToEven53 a = a"
proof (cases "a = 2 ^ 53")
  case True
  then show ?thesis by (simp add: roundToEven53_def Let_def)
next
  case False
  assume "a \<le> 2 ^ 53"
  with False have "a < 2 ^ 53" by simp
  then show ?thesis by (rule roundToEven53_small)
qed

lemma float64_of_int_safe: "\<bar>n\<bar> \<le> 2 ^ 53 \<Longrightarrow> float64_of_int n = Finite (of_int n)"
proof -
  assume a: "\<bar>n\<bar> \<le> 2 ^ 53"
  then have "nat \<bar>n\<bar> \<le> 2 ^ 53" by simp
  then have "roundToEven53 (nat \<bar>n\<bar>) = nat \<bar>n\<bar>" by (rule roundToEven53_safe)
  then have "sgn n * int (roundToEven53 (nat \<bar>n\<bar>)) = n"
    by (simp add: mult_sgn_abs)
  then show ?thesis by (simp add: float64_of_int_def)
qed

subsection \<open>Integer members\<close>

text \<open>
  Claim C8. For a source struct whose member \<open>sfName\<close> holds an integer of any signed
  or unsigned width, 64 bits included, the resolver bound to that member returns
  \<^verbatim>\<open>float64\<close> of the integer and no error. The conversion is exact for every
  magnitude up to \<open>2 ^ 53\<close>; beyond, a value can lose precision, and the resolver
  still returns without error: \<open>2 ^ 53 + 1\<close> becomes \<open>2 ^ 53\<close>, and the largest
  \<^verbatim>\<open>int64\<close> becomes \<open>2 ^ 63\<close>.
\<close>

theorem integer_member_float64:
  assumes src: "Source p = VStruct sp sn fs"
    and fld: "lookupField (\<lambda>s. s = sfName) fs = [(fn, pk, v)]"
  shows "(v = VInt t n \<and> Kind t \<in> {KInt, KInt8, KInt16, KInt32, KInt64} \<longrightarrow>
            Resolve call sfName (Kind t) p = Inr (VFloat float64T (float64_of_int n), None))
       \<and> (v = VUint t n \<and> Kind t \<in> {KUint, KUint8, KUint16, KUint32, KUint64} \<longrightarrow>
            Resolve call sfName (Kind t) p = Inr (VFloat float64T (float64_of_int n), None))
       \<and> (\<bar>n\<bar> \<le> 2 ^ 53 \<longrightarrow> float64_of_int n = Finite (of_int n))
       \<and> float64_of_int (2 ^ 53 + 1) = Finite (2 ^ 53)
       \<and> float64_of_int (2 ^ 63 - 1) = Finite (2 ^ 63)
       \<and> float64_of_int (- (2 ^ 53) - 1) = Finite (- (2 ^ 53))"
proof -
  have r: "FieldByName (ValueOf (Source p)) sfName = Inr (RV (pk \<noteq> []) v)"
    using src fld by (simp add: FieldByName_struct)
  have i: "v = VInt t n \<and> Kind t \<in> {KInt, KInt8, KInt16, KInt32, KInt64} \<longrightarrow>
            Resolve call sfName (Kind t) p = Inr (VFloat float64T (float64_of_int n), None)"
    using r by (auto simp add: Resolve_def resolveKind_def)
  have u: "v = VUint t n \<and> Kind t \<in> {KUint, KUint8, KUint16, KUint32, KUint64} \<longrightarrow>
            Resolve call sfName (Kind t) p = Inr (VFloat float64T (float64_of_int n), None)"
    using r by (auto simp add: Resolve_def resolveKind_def)
  have s: "\<bar>n\<bar> \<le> 2 ^ 53 \<longrightarrow> float64_of_int n = Finite (of_int n)"
    by (simp add: float64_of_int_safe)
  have b1: "float64_of_int (2 ^ 53 + 1) = Finite (2 ^ 53)"
    by (simp add: float64_of_int_def roundToEven53_def Let_def)
  have b2: "float64_of_int (2 ^ 63 - 1) = Finite (2 ^ 63)"
    by (simp add: float64_of_int_def roundToEven53_def Let_def)
  have b3: "float64_of_int (- (2 ^ 53) - 1) = Finite (- (2 ^ 53))"
    by (simp add: float64_of_int_def roundToEven53_def Let_def)
  from i u s b1 b2 b3 show ?thesis by blast
qed

theorem integer_member_float64_witness:
  "Resolve exampleCall ''Age'' KInt \<lparr>Source = exampleDog, Args = Map.empty\<rparr>
     = Inr (VFloat float64T (Finite 2), None)
   \<and> Resolve exampleCall ''Big'' KInt64 \<lparr>Source = exampleDog, Args = Map.empty\<rparr>
     = Inr (VFloat float64T (Finite (2 ^ 53)), None)"
proof -
  have a: "Source \<lparr>Source = exampleDog, Args = Map.empty\<rparr> = VStruct ''main'' ''Dog''
     [(''Name'', [], VString stringT ''Bello''),
      (''Age'', [], VInt intT 2),
      (''Big'', [], VInt int64T (2 ^ 53 + 1)),
      (''Born'', [], VTime 1700000000123 ''UTC''),
      (''Enemies'', [], VFunc enemiesT (Some 0)),
      (''Rivals'', [], VFunc enemiesT (Some 1)),
      (''Allies'', [], VFunc enemiesT None)]"
    by (simp add: exampleDog_def)
  have f1: "lookupField (\<lambda>s. s = ''Age'') [(''Name'', [], VString stringT ''Bello''),
      (''Age'', [], VInt intT 2),
      (''Big'', [], VInt int64T (2 ^ 53 + 1)),
      (''Born'', [], VTime 1700000000123 ''UTC''),
      (''Enemies'', [], VFunc enemiesT (Some 0)),
      (''Rivals'', [], VFunc enemiesT (Some 1)),
      (''Allies'', [], VFunc enemiesT None)] = [(''Age'', [], VInt intT 2)]"
    by simp
  have f2: "lookupField (\<lambda>s. s = ''Big'') [(''Name'', [], VString stringT ''Bello''),
      (''Age'', [], VInt intT 2),
      (''Big'', [], VInt int64T (2 ^ 53 + 1)),
      (''Born'', [], VTime 1700000000123 ''UTC''),
      (''Enemies'', [], VFunc enemiesT (Some 0)),
      (''Rivals'', [], VFunc enemiesT (Some 1)),
      (''Allies'', [], VFunc enemiesT None)] = [(''Big'', [], VInt int64T (2 ^ 53 + 1))]"
    by simp
  have k1: "Kind intT = KInt" by (simp add: intT_def)
  have k2: "Kind int64T = KInt64" by (simp add: int64T_def)
  show ?thesis
    using integer_member_float64 [OF a f1, where t = intT and n = 2 and call = exampleCall]
          integer_member_float64 [OF a f2, where t = int64T and n = "2 ^ 53 + 1" and call = exampleCall]
    by (simp add: k1 k2)
qed

lemma exampleDog_Source:
  "Source \<lparr>Source = exampleDog, Args = a\<rparr> = VStruct ''main'' ''Dog''
     [(''Name'', [], VString stringT ''Bello''),
      (''Age'', [], VInt intT 2),
      (''Big'', [], VInt int64T (2 ^ 53 + 1)),
      (''Born'', [], VTime 1700000000123 ''UTC''),
      (''Enemies'', [], VFunc enemiesT (Some 0)),
      (''Rivals'', [], VFunc enemiesT (Some 1)),
      (''Allies'', [], VFunc enemiesT None)]"
  by (simp add: exampleDog_def)

subsection \<open>Computed members\<close>

text \<open>
  Claim C6, as amended. For a source struct whose member \<open>sfName\<close> holds a function
  value, the resolver bound to that member (declared kind func) returns the nil value and
  no error when the function value is nil, whether the member is exported or not.
  Otherwise, for an exported member whose function, called with the source as its one
  argument, returns at least two results of which the second is nil or an error, the
  resolver returns the first result as the value and the second as the error, nil or
  not, both unchanged.
\<close>

theorem computed_member:
  assumes src: "Source p = VStruct sp sn fs"
    and fld: "lookupField (\<lambda>s. s = sfName) fs = [(fn, pk, VFunc t f)]"
  shows "(f = None \<longrightarrow> Resolve call sfName KFunc p = Inr (VNil, None))
       \<and> (f = Some n \<and> pk = [] \<and> call n [Source p] = Inr (v # VNil # others) \<longrightarrow>
            Resolve call sfName KFunc p = Inr (v, None))
       \<and> (f = Some n \<and> pk = [] \<and> call n [Source p] = Inr (v # VError e # others) \<longrightarrow>
            Resolve call sfName KFunc p = Inr (v, Some e))"
proof -
  have r: "FieldByName (ValueOf (Source p)) sfName = Inr (RV (pk \<noteq> []) (VFunc t f))"
    using src fld by (simp add: FieldByName_struct)
  show ?thesis
    using r by (simp add: Resolve_def resolveFunc_def)
qed

theorem computed_member_witness:
  "Resolve exampleCall ''Allies'' KFunc \<lparr>Source = exampleDog, Args = Map.empty\<rparr> = Inr (VNil, None)
   \<and> Resolve exampleCall ''Enemies'' KFunc \<lparr>Source = exampleDog, Args = Map.empty\<rparr>
       = Inr (VSlice catsT [], None)
   \<and> Resolve exampleCall ''Rivals'' KFunc \<lparr>Source = exampleDog, Args = Map.empty\<rparr>
       = Inr (VSlice catsT [], Some ''no rivals'')"
proof -
  have f1: "lookupField (\<lambda>s. s = ''Allies'') [(''Name'', [], VString stringT ''Bello''),
      (''Age'', [], VInt intT 2),
      (''Big'', [], VInt int64T (2 ^ 53 + 1)),
      (''Born'', [], VTime 1700000000123 ''UTC''),
      (''Enemies'', [], VFunc enemiesT (Some 0)),
      (''Rivals'', [], VFunc enemiesT (Some 1)),
      (''Allies'', [], VFunc enemiesT None)] = [(''Allies'', [], VFunc enemiesT None)]"
    by simp
  have f2: "lookupField (\<lambda>s. s = ''Enemies'') [(''Name'', [], VString stringT ''Bello''),
      (''Age'', [], VInt intT 2),
      (''Big'', [], VInt int64T (2 ^ 53 + 1)),
      (''Born'', [], VTime 1700000000123 ''UTC''),
      (''Enemies'', [], VFunc enemiesT (Some 0)),
      (''Rivals'', [], VFunc enemiesT (Some 1)),
      (''Allies'', [], VFunc enemiesT None)] = [(''Enemies'', [], VFunc enemiesT (Some 0))]"
    by simp
  have f3: "lookupField (\<lambda>s. s = ''Rivals'') [(''Name'', [], VString stringT ''Bello''),
      (''Age'', [], VInt intT 2),
      (''Big'', [], VInt int64T (2 ^ 53 + 1)),
      (''Born'', [], VTime 1700000000123 ''UTC''),
      (''Enemies'', [], VFunc enemiesT (Some 0)),
      (''Rivals'', [], VFunc enemiesT (Some 1)),
      (''Allies'', [], VFunc enemiesT None)] = [(''Rivals'', [], VFunc enemiesT (Some 1))]"
    by simp
  show ?thesis
    using computed_member [OF exampleDog_Source f1, where call = exampleCall]
          computed_member [OF exampleDog_Source f2, where call = exampleCall and n = 0
             and v = "VSlice catsT []" and others = "[]"]
          computed_member [OF exampleDog_Source f3, where call = exampleCall and n = 1
             and v = "VSlice catsT []" and e = "''no rivals''" and others = "[]"]
    by simp
qed

text \<open>
  Claim C6 as stated fails. A member that is not exported is in the schema, and when its
  function value is set, \<^verbatim>\<open>r.Interface()\<close> panics before the function is called,
  since the value was read through an unexported field. On an exported member, a
  function that returns a single result makes \<^verbatim>\<open>results[1]\<close> panic, and a second
  result that is neither nil nor an error makes the type assertion panic.
\<close>

theorem computed_member_counterexample:
  "Resolve exampleCall ''enemies'' KFunc \<lparr>Source = exampleKennel, Args = Map.empty\<rparr>
     = Inl ReadOnlyValue
   \<and> Resolve exampleCallShort ''Enemies'' KFunc \<lparr>Source = exampleDog, Args = Map.empty\<rparr>
     = Inl IndexOutOfRange
   \<and> Resolve exampleCallShort ''Rivals'' KFunc \<lparr>Source = exampleDog, Args = Map.empty\<rparr>
     = Inl FailedTypeAssertion"
  by (simp add: Resolve_def FieldByName_def ValueOf_def resolveFunc_def exampleKennel_def
        exampleDog_def)

subsection \<open>Timestamps\<close>

lemmas build_eval = createGraphQlFieldHierarchy.simps emptyBuild_def typeTime_def stringT_def intT_def
  catT_def catsT_def enemiesT_def kindArguments_def listArguments_def filterArguments_def
  ToLower_def toLowerChar_def Let_def

text \<open>
  Claim C9, as amended. \<^verbatim>\<open>time.Time\<close> is special-cased at both levels. In schema
  construction, when the cache holds no entry under the name \<^verbatim>\<open>Time\<close>, the type
  yields the scalar
  \<^verbatim>\<open>graphql.Float\<close> with no sub-fields and leaves the cache, the filter map and the
  list of objects as they were, so a member of that type becomes a field of type Float
  without arguments. In resolution, an exported member that holds a \<^verbatim>\<open>time.Time\<close>
  resolves to \<^verbatim>\<open>float64\<close> of its \<^verbatim>\<open>UnixMilli()\<close>, whatever its location.
\<close>

theorem timestamp_member:
  "(typesMap st ''Time'' = None \<longrightarrow>
      createGraphQlFieldHierarchy typeTime st = Inr ((Some GFloat, Map.empty), st))
   \<and> (typesMap st ''Time'' = None \<longrightarrow>
      structFieldLoop ((sfName, sfPkg, typeTime) # rest) st flds =
      structFieldLoop rest st
        (flds(ToLower sfName \<mapsto>
           \<lparr>fName = sfName, fType = GFloat, fArgs = Map.empty,
            structFieldName = sfName, structFieldTypeKind = KStruct\<rparr>)))
   \<and> (Source p = VStruct sp sn fs \<and> lookupField (\<lambda>s. s = sfName) fs = [(fn, [], VTime ms loc)] \<longrightarrow>
      Resolve call sfName KStruct p = Inr (VFloat float64T (float64_of_int ms), None))"
proof -
  have n: "Name typeTime = ''Time''" by (simp add: typeTime_def)
  have k: "Kind typeTime = KStruct" by (simp add: typeTime_def)
  have a: "typesMap st ''Time'' = None \<longrightarrow>
      createGraphQlFieldHierarchy typeTime st = Inr ((Some GFloat, Map.empty), st)"
    by (simp add: n)
  have ka: "kindArguments sfName typeTime (filterArguments Map.empty) (filterMap st)
      = (Map.empty, filterMap st)"
    by (simp add: kindArguments_def typeTime_def filterArguments_def)
  have b: "typesMap st ''Time'' = None \<longrightarrow>
      structFieldLoop ((sfName, sfPkg, typeTime) # rest) st flds =
      structFieldLoop rest st
        (flds(ToLower sfName \<mapsto>
           \<lparr>fName = sfName, fType = GFloat, fArgs = Map.empty,
            structFieldName = sfName, structFieldTypeKind = KStruct\<rparr>))"
    using a by (simp add: ka k del: createGraphQlFieldHierarchy.simps)
  have c: "Source p = VStruct sp sn fs \<and> lookupField (\<lambda>s. s = sfName) fs = [(fn, [], VTime ms loc)] \<longrightarrow>
      Resolve call sfName KStruct p = Inr (VFloat float64T (float64_of_int ms), None)"
    by (auto simp add: FieldByName_struct Resolve_def resolveKind_def)
  from a b c show ?thesis by blast
qed

theorem timestamp_member_witness:
  "createGraphQlFieldHierarchy typeTime emptyBuild = Inr ((Some GFloat, Map.empty), emptyBuild)
   \<and> structFieldLoop [(''Born'', [], typeTime)] emptyBuild Map.empty =
       Inr ([''born'' \<mapsto> \<lparr>fName = ''Born'', fType = GFloat, fArgs = Map.empty,
            structFieldName = ''Born'', structFieldTypeKind = KStruct\<rparr>], emptyBuild)
   \<and> Resolve exampleCall ''Born'' KStruct \<lparr>Source = exampleDog, Args = Map.empty\<rparr>
       = Inr (VFloat float64T (Finite 1700000000123), None)"
proof -
  have t: "typesMap emptyBuild ''Time'' = None" by (simp add: emptyBuild_def)
  have f: "lookupField (\<lambda>s. s = ''Born'') [(''Name'', [], VString stringT ''Bello''),
      (''Age'', [], VInt intT 2),
      (''Big'', [], VInt int64T (2 ^ 53 + 1)),
      (''Born'', [], VTime 1700000000123 ''UTC''),
      (''Enemies'', [], VFunc enemiesT (Some 0)),
      (''Rivals'', [], VFunc enemiesT (Some 1)),
      (''Allies'', [], VFunc enemiesT None)] = [(''Born'', [], VTime 1700000000123 ''UTC'')]"
    by simp
  have l: "ToLower ''Born'' = ''born''" by (simp add: ToLower_def toLowerChar_def)
  have x: "float64_of_int 1700000000123 = Finite 1700000000123"
    using float64_of_int_safe [of 1700000000123] by simp
  show ?thesis
    using timestamp_member [where st = emptyBuild and sfName = "''Born''" and sfPkg = "[]" and rest = "[]"
            and flds = Map.empty and p = "\<lparr>Source = exampleDog, Args = Map.empty\<rparr>" and call = exampleCall
            and fs = "[(''Name'', [], VString stringT ''Bello''),
      (''Age'', [], VInt intT 2),
      (''Big'', [], VInt int64T (2 ^ 53 + 1)),
      (''Born'', [], VTime 1700000000123 ''UTC''),
      (''Enemies'', [], VFunc enemiesT (Some 0)),
      (''Rivals'', [], VFunc enemiesT (Some 1)),
      (''Allies'', [], VFunc enemiesT None)]" and sp = "''main''" and sn = "''Dog''"
            and ms = 1700000000123 and loc = "''UTC''" and fn = "''Born''"]
          t f exampleDog_Source [of Map.empty]
    by (simp add: l x kindArguments_def filterArguments_def typeTime_def emptyBuild_def)
qed

text \<open>
  Claim C9 as stated fails. The cache is looked up under \<^verbatim>\<open>t.Name()\<close> before the
  special case is reached: in a struct that holds a \<^verbatim>\<open>clock.Time\<close> and then a
  \<^verbatim>\<open>time.Time\<close>, the second member gets the object made for the first, not
  \<^verbatim>\<open>graphql.Float\<close>. And for a \<^verbatim>\<open>time.Time\<close> held in a member that is not
  exported, \<^verbatim>\<open>r.Interface()\<close> panics.
\<close>

theorem timestamp_member_counterexample:
  "builtFieldType (createGraphQlFieldHierarchy exampleEventT emptyBuild) ''at'' = Some (GObject 0)
   \<and> builtObjectNames (createGraphQlFieldHierarchy exampleEventT emptyBuild) = [''Time'', ''Event'']
   \<and> Resolve exampleCall ''born'' KStruct \<lparr>Source = exampleKennel, Args = Map.empty\<rparr>
     = Inl ReadOnlyValue"
  by (simp add: builtFieldType_def builtObjectNames_def exampleEventT_def build_eval
        Resolve_def FieldByName_def ValueOf_def resolveKind_def exampleKennel_def)

subsection \<open>Members that hold a slice or an array\<close>

declare whereLoop.simps [simp del]

lemma filterLoop_Cons:
  "filterLoop (RV False element) (m # rest) =
     (case memberMatches element m of
        Inl e \<Rightarrow> Inl e
      | Inr match \<Rightarrow> if match then Inr True else filterLoop (RV False element) rest)"
  by (cases m) (simp add: memberMatches_def split: sum.splits)

lemma filterLoop_no_match:
  "list_all (\<lambda>m. memberMatches element m = Inr False) ms \<Longrightarrow>
   filterLoop (RV False element) ms = Inr False"
  by (induction ms) (simp_all add: filterLoop_Cons)

lemma filterLoop_match:
  "list_all (\<lambda>m. memberMatches element m = Inr False) ms1 \<Longrightarrow>
   memberMatches element m = Inr True \<Longrightarrow>
   filterLoop (RV False element) (ms1 @ m # ms2) = Inr True"
  by (induction ms1) (simp_all add: filterLoop_Cons)

lemma whereLoop_end:
  "whereLoop (RV False (VSlice t xs)) filterOne (int (length xs)) (int (length xs))
     = Inr (VSlice t [], None)"
  by (simp add: whereLoop.simps)

lemma whereLoop_hit:
  "filterLoop (RV False x) ms = Inr True \<Longrightarrow>
   whereLoop (RV False (VSlice t (pre @ x # post))) (VMap ms) (int (length pre))
       (int (length (pre @ x # post)))
     = Inr (VSlice t [x], None)"
  by (subst whereLoop.simps) simp

lemma whereLoop_miss:
  "filterLoop (RV False x) ms = Inr False \<Longrightarrow>
   whereLoop (RV False (VSlice t (pre @ x # post))) (VMap ms) (int (length pre))
       (int (length (pre @ x # post)))
     = whereLoop (RV False (VSlice t ((pre @ [x]) @ post))) (VMap ms) (int (length (pre @ [x])))
       (int (length ((pre @ [x]) @ post)))"
  by (subst whereLoop.simps) (simp add: add.commute)

lemma whereLoop_scan:
  "list_all (\<lambda>x. filterLoop (RV False x) ms = Inr False) mid \<Longrightarrow>
   whereLoop (RV False (VSlice t (pre @ mid @ post))) (VMap ms) (int (length pre))
       (int (length (pre @ mid @ post)))
     = whereLoop (RV False (VSlice t (pre @ mid @ post))) (VMap ms) (int (length (pre @ mid)))
       (int (length (pre @ mid @ post)))"
proof (induction mid arbitrary: pre)
  case Nil
  then show ?case by simp
next
  case (Cons x mid)
  from Cons.prems have x: "filterLoop (RV False x) ms = Inr False"
    and mid: "list_all (\<lambda>x. filterLoop (RV False x) ms = Inr False) mid"
    by simp_all
  show ?case
    using whereLoop_miss [OF x, of t pre "mid @ post"] Cons.IH [OF mid, of "pre @ [x]"]
    by simp
qed


text \<open>
  The filter on a slice. For an exported member that holds a slice \<open>xs\<close> and a
  \<^verbatim>\<open>where\<close> argument with the members \<open>ms\<close>: when \<open>x\<close> is the first element
  of \<open>xs\<close> on which some member \<open>m\<close> of the filter matches (every member tried on an
  earlier element, and every member tried on \<open>x\<close> before \<open>m\<close>, compared unequal), the
  result is the one-element slice of \<open>x\<close> with no error, whatever the later elements
  \<open>post\<close> and the later members \<open>ms2\<close> are; when every member compares unequal on
  every element, the result is the empty slice with no error.
\<close>

lemma where_first_match:
  assumes src: "Source p = VStruct sp sn fs"
    and fld: "lookupField (\<lambda>s. s = sfName) fs = [(fn, [], VSlice t xs)]"
    and whr: "Args p ''where'' = Some (VMap ms)"
  shows "(xs = pre @ x # post
            \<and> list_all (\<lambda>y. list_all (\<lambda>m. memberMatches y m = Inr False) ms) pre
            \<and> ms = ms1 @ m # ms2
            \<and> list_all (\<lambda>m. memberMatches x m = Inr False) ms1
            \<and> memberMatches x m = Inr True \<longrightarrow>
          Resolve call sfName KSlice p = Inr (VSlice t [x], None))
       \<and> (list_all (\<lambda>y. list_all (\<lambda>m. memberMatches y m = Inr False) ms) xs \<longrightarrow>
          Resolve call sfName KSlice p = Inr (VSlice t [], None))"
proof -
  have r: "FieldByName (ValueOf (Source p)) sfName = Inr (RV False (VSlice t xs))"
    using src fld by (simp add: FieldByName_struct)
  have res: "Resolve call sfName KSlice p
      = whereLoop (RV False (VSlice t xs)) (VMap ms) 0 (int (length xs))"
    using r whr by (simp add: Resolve_def resolveList_def)
  have hit: "Resolve call sfName KSlice p = Inr (VSlice t [x], None)"
    if xs: "xs = pre @ x # post"
      and pre: "list_all (\<lambda>y. list_all (\<lambda>m. memberMatches y m = Inr False) ms) pre"
      and ms: "ms = ms1 @ m # ms2"
      and ms1: "list_all (\<lambda>m. memberMatches x m = Inr False) ms1"
      and m: "memberMatches x m = Inr True"
  proof -
    have p: "list_all (\<lambda>y. filterLoop (RV False y) ms = Inr False) pre"
      using pre by (induction pre) (simp_all add: filterLoop_no_match)
    have x: "filterLoop (RV False x) ms = Inr True"
      using ms ms1 m by (simp add: filterLoop_match)
    have "whereLoop (RV False (VSlice t ([] @ pre @ x # post))) (VMap ms) (int (length ([] :: govalue list)))
            (int (length ([] @ pre @ x # post)))
        = whereLoop (RV False (VSlice t ([] @ pre @ x # post))) (VMap ms) (int (length ([] @ pre)))
            (int (length ([] @ pre @ x # post)))"
      using p by (rule whereLoop_scan)
    then show ?thesis
      using res xs whereLoop_hit [OF x, of t pre post] by simp
  qed
  have miss: "Resolve call sfName KSlice p = Inr (VSlice t [], None)"
    if all: "list_all (\<lambda>y. list_all (\<lambda>m. memberMatches y m = Inr False) ms) xs"
  proof -
    have p: "list_all (\<lambda>y. filterLoop (RV False y) ms = Inr False) xs"
      using all by (induction xs) (simp_all add: filterLoop_no_match)
    have "whereLoop (RV False (VSlice t ([] @ xs @ []))) (VMap ms) (int (length ([] :: govalue list)))
            (int (length ([] @ xs @ [])))
        = whereLoop (RV False (VSlice t ([] @ xs @ []))) (VMap ms) (int (length ([] @ xs)))
            (int (length ([] @ xs @ [])))"
      using p by (rule whereLoop_scan)
    then show ?thesis
      using res whereLoop_end [of t xs "VMap ms"] by simp
  qed
  from hit miss show ?thesis by blast
qed


lemma goInt_id: "- (2 ^ 63) \<le> x \<Longrightarrow> x < 2 ^ 63 \<Longrightarrow> goInt x = x"
  by (simp add: goInt_def signed_take_bit_int_eq_self)

text \<open>
  Claim C3, as amended. For an exported member that holds a slice \<open>xs\<close>, resolved with
  no \<^verbatim>\<open>where\<close> argument: the window starts at 0, or at
  \<open>min skip (length xs - 1)\<close> when \<^verbatim>\<open>skip\<close> is supplied, and stops at the length,
  or at \<open>min (start + limit) (length xs)\<close> when \<^verbatim>\<open>limit\<close> is supplied (the sum
  within the 64-bit \<^verbatim>\<open>int\<close>). Whenever \<open>0 \<le> start \<le> stop\<close>, the result is
  the elements of \<open>xs\<close> from \<open>start\<close> up to \<open>stop\<close>, in their order, with no error.
\<close>

theorem skip_limit_window:
  assumes src: "Source p = VStruct sp sn fs"
    and fld: "lookupField (\<lambda>s. s = sfName) fs = [(fn, [], VSlice t xs)]"
    and whr: "Args p ''where'' = None"
    and skp: "Args p ''skip'' = map_option (VInt intT) skip"
    and lim: "Args p ''limit'' = map_option (VInt intT) limit"
    and start: "start = (case skip of None \<Rightarrow> 0 | Some sk \<Rightarrow> min sk (int (length xs) - 1))"
    and stop: "stop = (case limit of None \<Rightarrow> int (length xs)
                        | Some lm \<Rightarrow> min (start + lm) (int (length xs)))"
    and fits: "case limit of None \<Rightarrow> True | Some lm \<Rightarrow> - (2 ^ 63) \<le> start + lm \<and> start + lm < 2 ^ 63"
    and valid: "0 \<le> start" "start \<le> stop"
  shows "Resolve call sfName KSlice p
           = Inr (VSlice t (take (nat (stop - start)) (drop (nat start) xs)), None)"
proof -
  have r: "FieldByName (ValueOf (Source p)) sfName = Inr (RV False (VSlice t xs))"
    using src fld by (simp add: FieldByName_struct)
  have i: "(case Args p ''skip'' of
              None \<Rightarrow> Inr 0
            | Some skip \<Rightarrow>
                (case assertInt skip of
                   Inl e \<Rightarrow> Inl e
                 | Inr sk \<Rightarrow> Inr (MinInt sk (int (length xs) - 1)))) = Inr start"
    using skp start by (cases skip) (auto simp add: MinInt_def min_def)
  have j: "(case Args p ''limit'' of
              None \<Rightarrow> Inr (int (length xs))
            | Some limit \<Rightarrow>
                (case assertInt limit of
                   Inl e \<Rightarrow> Inl e
                 | Inr lm \<Rightarrow> Inr (MinInt (goInt (start + lm)) (int (length xs))))) = Inr stop"
    using lim stop fits by (cases limit) (auto simp add: MinInt_def min_def goInt_id)
  have le: "stop \<le> int (length xs)"
    using stop by (cases limit) simp_all
  show ?thesis
    using r whr valid le by (simp add: Resolve_def resolveList_def i j)
qed


lemma exampleShelter_Source:
  "Source \<lparr>Source = exampleShelter, Args = a\<rparr> = VStruct ''main'' ''Shelter''
     [(''Cats'', [], VSlice catsT
         [exampleCat ''Maru'' 3 ''Black'', exampleCat ''Hana'' 1 ''White'',
          exampleCat ''Lily'' 2 ''Black'']),
      (''Pens'', [], VArray (ArrayT [] [] 3 catT)
         [exampleCat ''Maru'' 3 ''Black'', exampleCat ''Hana'' 1 ''White'',
          exampleCat ''Lily'' 2 ''Black'']),
      (''Kittens'', [], VSlice (SliceT [] [] (StructT ''main'' ''Kitten'' [(''Age'', [], int16T)]))
         [VStruct ''main'' ''Kitten'' [(''Age'', [], VInt int16T 3)]]),
      (''Tags'', [], VSlice (SliceT [] [] intT)
         [VInt intT 10, VInt intT 11, VInt intT 12, VInt intT 13, VInt intT 14]),
      (''Marks'', [], VArray (ArrayT [] [] 2 intT) [VInt intT 10, VInt intT 11]),
      (''Notes'', [], VSlice (SliceT [] [] intT) [])]"
  by (simp add: exampleShelter_def)

lemma exampleShelter_Tags:
  "lookupField (\<lambda>s. s = ''Tags'')
     [(''Cats'', [], VSlice catsT
         [exampleCat ''Maru'' 3 ''Black'', exampleCat ''Hana'' 1 ''White'',
          exampleCat ''Lily'' 2 ''Black'']),
      (''Pens'', [], VArray (ArrayT [] [] 3 catT)
         [exampleCat ''Maru'' 3 ''Black'', exampleCat ''Hana'' 1 ''White'',
          exampleCat ''Lily'' 2 ''Black'']),
      (''Kittens'', [], VSlice (SliceT [] [] (StructT ''main'' ''Kitten'' [(''Age'', [], int16T)]))
         [VStruct ''main'' ''Kitten'' [(''Age'', [], VInt int16T 3)]]),
      (''Tags'', [], VSlice (SliceT [] [] intT)
         [VInt intT 10, VInt intT 11, VInt intT 12, VInt intT 13, VInt intT 14]),
      (''Marks'', [], VArray (ArrayT [] [] 2 intT) [VInt intT 10, VInt intT 11]),
      (''Notes'', [], VSlice (SliceT [] [] intT) [])]
   = [(''Tags'', [], VSlice (SliceT [] [] intT)
         [VInt intT 10, VInt intT 11, VInt intT 12, VInt intT 13, VInt intT 14])]"
  by simp






lemmas list_eval = exampleShelter_def Resolve_def FieldByName_def ValueOf_def resolveList_def
  MinInt_def goInt_def intT_def

lemmas where_eval = list_eval exampleCat_def catsT_def catT_def whereLoop.simps filterMatch_def
  interfaceEq_def
  ToLower_def toLowerChar_def stringT_def float64T_def

lemma float64_of_int_3: "float64_of_int 3 = Finite 3"
  using float64_of_int_safe [of 3] by simp

theorem skip_limit_window_witness:
  "Resolve exampleCall ''Tags'' KSlice
      \<lparr>Source = exampleShelter, Args = [''skip'' \<mapsto> VInt intT 3, ''limit'' \<mapsto> VInt intT 10]\<rparr>
     = Inr (VSlice (SliceT [] [] intT) [VInt intT 13, VInt intT 14], None)
   \<and> Resolve exampleCall ''Tags'' KSlice
      \<lparr>Source = exampleShelter, Args = [''skip'' \<mapsto> VInt intT 10]\<rparr>
     = Inr (VSlice (SliceT [] [] intT) [VInt intT 14], None)
   \<and> Resolve exampleCall ''Tags'' KSlice
      \<lparr>Source = exampleShelter, Args = [''limit'' \<mapsto> VInt intT 2]\<rparr>
     = Inr (VSlice (SliceT [] [] intT) [VInt intT 10, VInt intT 11], None)"
proof -
  have a: "Resolve exampleCall ''Tags'' KSlice
      \<lparr>Source = exampleShelter, Args = [''skip'' \<mapsto> VInt intT 3, ''limit'' \<mapsto> VInt intT 10]\<rparr>
     = Inr (VSlice (SliceT [] [] intT)
         (take (nat (5 - 3)) (drop (nat 3)
            [VInt intT 10, VInt intT 11, VInt intT 12, VInt intT 13, VInt intT 14])), None)"
    by (rule skip_limit_window [OF exampleShelter_Source exampleShelter_Tags,
          where skip = "Some 3" and limit = "Some 10"]) simp_all
  have b: "Resolve exampleCall ''Tags'' KSlice
      \<lparr>Source = exampleShelter, Args = [''skip'' \<mapsto> VInt intT 10]\<rparr>
     = Inr (VSlice (SliceT [] [] intT)
         (take (nat (5 - 4)) (drop (nat 4)
            [VInt intT 10, VInt intT 11, VInt intT 12, VInt intT 13, VInt intT 14])), None)"
    by (rule skip_limit_window [OF exampleShelter_Source exampleShelter_Tags,
          where skip = "Some 10" and limit = None]) simp_all
  have c: "Resolve exampleCall ''Tags'' KSlice
      \<lparr>Source = exampleShelter, Args = [''limit'' \<mapsto> VInt intT 2]\<rparr>
     = Inr (VSlice (SliceT [] [] intT)
         (take (nat (2 - 0)) (drop (nat 0)
            [VInt intT 10, VInt intT 11, VInt intT 12, VInt intT 13, VInt intT 14])), None)"
    by (rule skip_limit_window [OF exampleShelter_Source exampleShelter_Tags,
          where skip = None and limit = "Some 2"]) simp_all
  from a b c show ?thesis by simp
qed

text \<open>
  Claim C3 as stated fails: on the empty slice with \<^verbatim>\<open>skip: 0\<close> the start is
  \<open>min 0 (0 - 1) = - 1\<close> and \<^verbatim>\<open>r.Slice(-1, 0)\<close> panics; a negative \<^verbatim>\<open>skip\<close>
  or \<^verbatim>\<open>limit\<close> makes the window invalid and panics likewise; with
  \<^verbatim>\<open>skip: 3\<close> and the largest \<^verbatim>\<open>int\<close> as \<^verbatim>\<open>limit\<close> the sum
  \<^verbatim>\<open>i+limit\<close> wraps around to a negative number, although
  \<open>min (3 + limit) 5 = 5\<close> would be a valid end; for a slice held in a member that
  is not exported, \<^verbatim>\<open>Interface()\<close> panics on the result; and on a member that
  holds an array, \<^verbatim>\<open>r.Slice\<close> panics for every window.
\<close>

theorem skip_limit_window_counterexample:
  "Resolve exampleCall ''Notes'' KSlice
      \<lparr>Source = exampleShelter, Args = [''skip'' \<mapsto> VInt intT 0]\<rparr>
     = Inl SliceOutOfBounds
   \<and> Resolve exampleCall ''Tags'' KSlice
      \<lparr>Source = exampleShelter, Args = [''skip'' \<mapsto> VInt intT (- 1)]\<rparr>
     = Inl SliceOutOfBounds
   \<and> Resolve exampleCall ''Tags'' KSlice
      \<lparr>Source = exampleShelter, Args = [''limit'' \<mapsto> VInt intT (- 1)]\<rparr>
     = Inl SliceOutOfBounds
   \<and> Resolve exampleCall ''Tags'' KSlice
      \<lparr>Source = exampleShelter,
       Args = [''skip'' \<mapsto> VInt intT 3, ''limit'' \<mapsto> VInt intT 9223372036854775807]\<rparr>
     = Inl SliceOutOfBounds
   \<and> Resolve exampleCall ''tags'' KSlice
      \<lparr>Source = exampleKennel, Args = [''limit'' \<mapsto> VInt intT 1]\<rparr>
     = Inl ReadOnlyValue
   \<and> Resolve exampleCall ''Marks'' KArray
      \<lparr>Source = exampleShelter, Args = [''limit'' \<mapsto> VInt intT 1]\<rparr>
     = Inl UnaddressableArray"
  by (simp add: list_eval exampleKennel_def)

text \<open>
  Claim C2 fails on the code. A numeric filter value arrives as a \<^verbatim>\<open>float64\<close>; the
  chain of type assertions on the member's value covers \<^verbatim>\<open>float64\<close>, \<^verbatim>\<open>int\<close>,
  \<^verbatim>\<open>int8\<close>, \<^verbatim>\<open>int32\<close> and \<^verbatim>\<open>int64\<close> only. A member of type \<^verbatim>\<open>int16\<close>,
  \<^verbatim>\<open>uint8\<close> or \<^verbatim>\<open>float32\<close> that holds 3 does not match the filter value 3,
  where a member of type \<^verbatim>\<open>int\<close> does: the filter \<^verbatim>\<open>where: {age: 3}\<close> finds no
  kitten of age 3 when the age is an \<^verbatim>\<open>int16\<close>, and finds the cat of age 3 when it is
  an \<^verbatim>\<open>int\<close>.
\<close>

theorem where_numeric_widths:
  "filterMatch (VFloat float64T (Finite 3)) (RV False (VInt int16T 3)) = Inr False
   \<and> filterMatch (VFloat float64T (Finite 3)) (RV False (VUint uint8T 3)) = Inr False
   \<and> filterMatch (VFloat float64T (Finite 3)) (RV False (VFloat float32T (Finite 3))) = Inr False
   \<and> filterMatch (VFloat float64T (Finite 3)) (RV False (VInt intT 3)) = Inr True
   \<and> Resolve exampleCall ''Kittens'' KSlice
        \<lparr>Source = exampleShelter, Args = [''where'' \<mapsto> VMap [(''age'', VFloat float64T (Finite 3))]]\<rparr>
      = Inr (VSlice (SliceT [] [] (StructT ''main'' ''Kitten'' [(''Age'', [], int16T)])) [], None)
   \<and> Resolve exampleCall ''Cats'' KSlice
        \<lparr>Source = exampleShelter, Args = [''where'' \<mapsto> VMap [(''age'', VFloat float64T (Finite 3))]]\<rparr>
      = Inr (VSlice catsT [exampleCat ''Maru'' 3 ''Black''], None)"
proof -
  have a: "filterMatch (VFloat float64T (Finite 3)) (RV False (VInt int16T 3)) = Inr False
   \<and> filterMatch (VFloat float64T (Finite 3)) (RV False (VUint uint8T 3)) = Inr False
   \<and> filterMatch (VFloat float64T (Finite 3)) (RV False (VFloat float32T (Finite 3))) = Inr False"
    by (simp add: filterMatch_def float64T_def int16T_def intT_def uint8T_def float32T_def
          int8T_def int32T_def int64T_def)
  have b: "filterMatch (VFloat float64T (Finite 3)) (RV False (VInt intT 3)) = Inr True"
    by (simp add: filterMatch_def float64_of_int_3)
  have c: "Resolve exampleCall ''Kittens'' KSlice
        \<lparr>Source = exampleShelter, Args = [''where'' \<mapsto> VMap [(''age'', VFloat float64T (Finite 3))]]\<rparr>
      = Inr (VSlice (SliceT [] [] (StructT ''main'' ''Kitten'' [(''Age'', [], int16T)])) [], None)"
    by (simp add: where_eval int16T_def int8T_def int32T_def int64T_def)
  have d: "Resolve exampleCall ''Cats'' KSlice
        \<lparr>Source = exampleShelter, Args = [''where'' \<mapsto> VMap [(''age'', VFloat float64T (Finite 3))]]\<rparr>
      = Inr (VSlice catsT [exampleCat ''Maru'' 3 ''Black''], None)"
    using float64_of_int_3 by (simp add: where_eval)
  from a b c d show ?thesis by blast
qed

text \<open>
  Claim C1 fails on the code for a member that holds an array. The closure's case lists
  \<^verbatim>\<open>reflect.Array\<close>, the scan runs, and then \<^verbatim>\<open>r.Slice(i, i+1)\<close> (on a match)
  or \<^verbatim>\<open>r.Slice(0, 0)\<close> (on none) panics, the array not being addressable. The same
  filters on the same elements held in a slice return the first match, and the empty
  slice when nothing matches.
\<close>

theorem where_on_array:
  "Resolve exampleCall ''Pens'' KArray
      \<lparr>Source = exampleShelter, Args = [''where'' \<mapsto> VMap [(''color'', VString stringT ''Black'')]]\<rparr>
     = Inl UnaddressableArray
   \<and> Resolve exampleCall ''Pens'' KArray
      \<lparr>Source = exampleShelter, Args = [''where'' \<mapsto> VMap [(''color'', VString stringT ''Green'')]]\<rparr>
     = Inl UnaddressableArray
   \<and> Resolve exampleCall ''Cats'' KSlice
      \<lparr>Source = exampleShelter, Args = [''where'' \<mapsto> VMap [(''color'', VString stringT ''Black'')]]\<rparr>
     = Inr (VSlice catsT [exampleCat ''Maru'' 3 ''Black''], None)
   \<and> Resolve exampleCall ''Cats'' KSlice
      \<lparr>Source = exampleShelter, Args = [''where'' \<mapsto> VMap [(''color'', VString stringT ''Green'')]]\<rparr>
     = Inr (VSlice catsT [], None)"
  by (simp add: where_eval)

subsection \<open>Schema construction\<close>

declare createGraphQlFieldHierarchy.simps [simp del]

lemma structFieldLoop_Cons:
  "structFieldLoop ((sfName, sfPkg, sfType) # rest) st flds =
     (case createGraphQlFieldHierarchy sfType st of
        Inl e \<Rightarrow> Inl e
      | Inr ((structFieldType, subfields), st1) \<Rightarrow>
          (case structFieldType of
             None \<Rightarrow> structFieldLoop rest st1 flds
           | Some ty \<Rightarrow>
               structFieldLoop rest
                 (st1\<lparr>filterMap := snd (kindArguments sfName sfType (filterArguments subfields) (filterMap st1))\<rparr>)
                 (flds(ToLower sfName \<mapsto>
                    \<lparr>fName = sfName, fType = ty,
                     fArgs = fst (kindArguments sfName sfType (filterArguments subfields) (filterMap st1)),
                     structFieldName = sfName, structFieldTypeKind = Kind sfType\<rparr>))))"
  by (simp split: sum.splits option.splits prod.splits)

lemma createGraphQlFieldHierarchy_StructT:
  "createGraphQlFieldHierarchy (StructT p n vfs) st =
     (case typesMap st n of
        Some knownType \<Rightarrow> Inr (knownType, st)
      | None \<Rightarrow>
          (if StructT p n vfs = typeTime then Inr ((Some GFloat, Map.empty), st)
           else
             (case structFieldLoop vfs st Map.empty of
                Inl e \<Rightarrow> Inl e
              | Inr (flds, st') \<Rightarrow>
                  (let ob = GObject (length (objects st'))
                   in Inr ((Some ob, flds),
                           st'\<lparr>objects := objects st' @ [(n, flds)],
                               typesMap := (typesMap st')(n \<mapsto> (Some ob, flds))\<rparr>)))))"
  by (subst createGraphQlFieldHierarchy.simps) (simp split: option.splits)

lemma structFieldLoop_append:
  "structFieldLoop (xs @ ys) st flds =
     (case structFieldLoop xs st flds of
        Inl e \<Rightarrow> Inl e
      | Inr (flds1, st1) \<Rightarrow> structFieldLoop ys st1 flds1)"
proof (induction xs arbitrary: st flds)
  case Nil
  then show ?case by simp
next
  case (Cons x xs)
  obtain sfName sfPkg sfType where x: "x = (sfName, sfPkg, sfType)"
    by (cases x) auto
  show ?case
  proof (cases "createGraphQlFieldHierarchy sfType st")
    case (Inl e)
    then show ?thesis by (simp add: x)
  next
    case (Inr res)
    obtain structFieldType subfields st1 where res: "res = ((structFieldType, subfields), st1)"
      by (cases res) auto
    show ?thesis
    proof (cases structFieldType)
      case None
      with Inr res show ?thesis
        by (simp only: x append_Cons structFieldLoop_Cons Cons.IH) simp
    next
      case (Some ty)
      with Inr res show ?thesis
        by (simp only: x append_Cons structFieldLoop_Cons Cons.IH) simp
    qed
  qed
qed

lemma omitted_type:
  "typesMap st (Name sfType) = None \<Longrightarrow>
   (sfType = FuncT p n ins (returnType # others) \<and> Kind returnType = KInterface)
     \<or> (sfType = Basic p n k \<and> getBasicOutput (Basic p n k) = None) \<Longrightarrow>
   createGraphQlFieldHierarchy sfType st = Inr ((None, Map.empty), st)"
  by (subst createGraphQlFieldHierarchy.simps) (auto simp add: typeTime_def)

text \<open>
  Claim C7, as amended. A member whose type's name has no entry in the cache, and which is
  a function type whose first result is of kind interface, or a type of a kind that
  \<^verbatim>\<open>getBasicOutput\<close> does not recognise, yields no descriptor and no error, and
  leaves the cache, the filter map and the objects as they were; the loop over the members
  skips it, going on with the same state and the same fields. When the members before it
  build, and the members after it build from the state and the fields that those left,
  the construction of the enclosing struct succeeds: with the cached entry when its name
  is in the cache, with \<^verbatim>\<open>graphql.Float\<close> when it is \<^verbatim>\<open>time.Time\<close>, and otherwise
  with a new object, entered in the cache under its name, whose fields are exactly the
  fields of the other members.
\<close>

theorem omitted_member:
  assumes miss: "typesMap st_at (Name sfType) = None"
    and omit: "(sfType = FuncT fp fn ins (returnType # others) \<and> Kind returnType = KInterface)
                \<or> (sfType = Basic fp fn k \<and> getBasicOutput (Basic fp fn k) = None)"
  shows "createGraphQlFieldHierarchy sfType st_at = Inr ((None, Map.empty), st_at)
       \<and> structFieldLoop ((sfName, sfPkg, sfType) # rest) st_at flds_at = structFieldLoop rest st_at flds_at
       \<and> (structFieldLoop before st Map.empty = Inr (flds_at, st_at)
            \<and> structFieldLoop rest st_at flds_at = Inr (flds_end, st_end) \<longrightarrow>
          createGraphQlFieldHierarchy (StructT p n (before @ (sfName, sfPkg, sfType) # rest)) st
            = (case typesMap st n of
                 Some knownType \<Rightarrow> Inr (knownType, st)
               | None \<Rightarrow>
                   if StructT p n (before @ (sfName, sfPkg, sfType) # rest) = typeTime
                   then Inr ((Some GFloat, Map.empty), st)
                   else Inr ((Some (GObject (length (objects st_end))), flds_end),
                             st_end\<lparr>objects := objects st_end @ [(n, flds_end)],
                                 typesMap := (typesMap st_end)
                                   (n \<mapsto> (Some (GObject (length (objects st_end))), flds_end))\<rparr>)))"
proof -
  have a: "createGraphQlFieldHierarchy sfType st_at = Inr ((None, Map.empty), st_at)"
    using miss omit by (rule omitted_type)
  have b: "structFieldLoop ((sfName, sfPkg, sfType) # rest) st_at flds_at = structFieldLoop rest st_at flds_at"
    by (simp add: a)
  have c: "createGraphQlFieldHierarchy (StructT p n (before @ (sfName, sfPkg, sfType) # rest)) st
            = (case typesMap st n of
                 Some knownType \<Rightarrow> Inr (knownType, st)
               | None \<Rightarrow>
                   if StructT p n (before @ (sfName, sfPkg, sfType) # rest) = typeTime
                   then Inr ((Some GFloat, Map.empty), st)
                   else Inr ((Some (GObject (length (objects st_end))), flds_end),
                             st_end\<lparr>objects := objects st_end @ [(n, flds_end)],
                                 typesMap := (typesMap st_end)
                                   (n \<mapsto> (Some (GObject (length (objects st_end))), flds_end))\<rparr>))"
    if pre: "structFieldLoop before st Map.empty = Inr (flds_at, st_at)"
      and post: "structFieldLoop rest st_at flds_at = Inr (flds_end, st_end)"
  proof -
    have l: "structFieldLoop (before @ (sfName, sfPkg, sfType) # rest) st Map.empty
           = Inr (flds_end, st_end)"
      using pre b post by (simp add: structFieldLoop_append)
    show ?thesis
      by (simp only: createGraphQlFieldHierarchy_StructT l) (simp add: Let_def split: option.splits)
  qed
  from a b c show ?thesis by blast
qed

lemma example_name_member:
  "structFieldLoop [(''Name'', [], stringT)] emptyBuild Map.empty
     = Inr ([''name'' \<mapsto> \<lparr>fName = ''Name'', fType = GString, fArgs = Map.empty,
               structFieldName = ''Name'', structFieldTypeKind = KString\<rparr>], emptyBuild)"
  by (simp add: createGraphQlFieldHierarchy.simps stringT_def emptyBuild_def typeTime_def
        kindArguments_def filterArguments_def ToLower_def toLowerChar_def)

lemma example_age_member:
  "structFieldLoop [(''Age'', [], intT)] emptyBuild
       [''name'' \<mapsto> \<lparr>fName = ''Name'', fType = GString, fArgs = Map.empty,
               structFieldName = ''Name'', structFieldTypeKind = KString\<rparr>]
     = Inr (exampleOwnerFields, emptyBuild)"
  by (simp add: createGraphQlFieldHierarchy.simps intT_def emptyBuild_def typeTime_def
        kindArguments_def filterArguments_def ToLower_def toLowerChar_def exampleOwnerFields_def)

lemma example_owner_object:
  "(case typesMap emptyBuild ''Owner'' of
      Some knownType \<Rightarrow> Inr (knownType, emptyBuild)
    | None \<Rightarrow>
        if StructT ''main'' ''Owner'' ([(''Name'', [], stringT)] @ (sfName, sfPkg, sfType) # [(''Age'', [], intT)])
           = typeTime
        then Inr ((Some GFloat, Map.empty), emptyBuild)
        else Inr ((Some (GObject (length (objects emptyBuild))), exampleOwnerFields),
                  emptyBuild\<lparr>objects := objects emptyBuild @ [(''Owner'', exampleOwnerFields)],
                      typesMap := (typesMap emptyBuild)
                        (''Owner'' \<mapsto> (Some (GObject (length (objects emptyBuild))), exampleOwnerFields))\<rparr>))
   = Inr ((Some (GObject 0), exampleOwnerFields), exampleOwnerBuild)"
  by (simp add: emptyBuild_def typeTime_def exampleOwnerBuild_def)

theorem omitted_member_witness:
  "createGraphQlFieldHierarchy anyFuncT emptyBuild = Inr ((None, Map.empty), emptyBuild)
   \<and> createGraphQlFieldHierarchy pointerT emptyBuild = Inr ((None, Map.empty), emptyBuild)
   \<and> createGraphQlFieldHierarchy
      (StructT ''main'' ''Owner'' [(''Name'', [], stringT), (''Any'', [], anyFuncT), (''Age'', [], intT)])
      emptyBuild
     = Inr ((Some (GObject 0), exampleOwnerFields), exampleOwnerBuild)
   \<and> createGraphQlFieldHierarchy
      (StructT ''main'' ''Owner'' [(''Name'', [], stringT), (''Next'', [], pointerT), (''Age'', [], intT)])
      emptyBuild
     = Inr ((Some (GObject 0), exampleOwnerFields), exampleOwnerBuild)"
proof -
  have m1: "typesMap emptyBuild (Name anyFuncT) = None"
    by (simp add: emptyBuild_def)
  have m2: "typesMap emptyBuild (Name pointerT) = None"
    by (simp add: emptyBuild_def)
  have o1: "(anyFuncT = FuncT [] [] [Basic ''main'' ''Owner'' KStruct]
                (Basic [] [] KInterface # [Basic [] ''error'' KInterface])
              \<and> Kind (Basic [] [] KInterface) = KInterface)
            \<or> (anyFuncT = Basic [] [] KInvalid \<and> getBasicOutput (Basic [] [] KInvalid) = None)"
    by (simp add: anyFuncT_def)
  have o2: "(pointerT = FuncT [] [] [] (pointerT # []) \<and> Kind pointerT = KInterface)
            \<or> (pointerT = Basic [] [] KPointer \<and> getBasicOutput (Basic [] [] KPointer) = None)"
    by (simp add: pointerT_def)
  note a = omitted_member [OF m1 o1, where sfName = "''Any''" and sfPkg = "[]"
      and rest = "[(''Age'', [], intT)]" and before = "[(''Name'', [], stringT)]"
      and st = emptyBuild and p = "''main''" and n = "''Owner''"
      and flds_end = exampleOwnerFields and st_end = emptyBuild]
  note b = omitted_member [OF m2 o2, where sfName = "''Next''" and sfPkg = "[]"
      and rest = "[(''Age'', [], intT)]" and before = "[(''Name'', [], stringT)]"
      and st = emptyBuild and p = "''main''" and n = "''Owner''"
      and flds_end = exampleOwnerFields and st_end = emptyBuild]
  have a1: "createGraphQlFieldHierarchy anyFuncT emptyBuild = Inr ((None, Map.empty), emptyBuild)"
    using a by (rule conjunct1)
  have b1: "createGraphQlFieldHierarchy pointerT emptyBuild = Inr ((None, Map.empty), emptyBuild)"
    using b by (rule conjunct1)
  have a3: "createGraphQlFieldHierarchy
      (StructT ''main'' ''Owner'' ([(''Name'', [], stringT)] @ (''Any'', [], anyFuncT) # [(''Age'', [], intT)]))
      emptyBuild
     = Inr ((Some (GObject 0), exampleOwnerFields), exampleOwnerBuild)"
    using a [THEN conjunct2, THEN conjunct2, THEN mp, OF conjI [OF example_name_member example_age_member]]
    by (simp only: example_owner_object)
  have b3: "createGraphQlFieldHierarchy
      (StructT ''main'' ''Owner'' ([(''Name'', [], stringT)] @ (''Next'', [], pointerT) # [(''Age'', [], intT)]))
      emptyBuild
     = Inr ((Some (GObject 0), exampleOwnerFields), exampleOwnerBuild)"
    using b [THEN conjunct2, THEN conjunct2, THEN mp, OF conjI [OF example_name_member example_age_member]]
    by (simp only: example_owner_object)
  from a1 b1 a3 b3 show ?thesis
    by (simp only: append_Cons append_Nil simp_thms)
qed

text \<open>
  Claim C7 as stated fails. The cache is looked up under \<^verbatim>\<open>t.Name()\<close> before
  the kind is looked at: a member of the map type \<^verbatim>\<open>Config\<close> that follows a
  member of the struct type \<^verbatim>\<open>db.Config\<close> is kept, with the object made for the
  struct as its type, and so is a member of the function type \<^verbatim>\<open>Handler\<close>, whose
  first result is an interface, that follows a member of the struct type
  \<^verbatim>\<open>lib.Handler\<close>. And the construction of the enclosing struct fails when another
  member fails: on a function type without results, \<^verbatim>\<open>t.Out(0)\<close> panics.
\<close>

theorem omitted_member_counterexample:
  "builtFieldType (createGraphQlFieldHierarchy exampleRootT emptyBuild) ''extra'' = Some (GObject 0)
   \<and> builtFieldType (createGraphQlFieldHierarchy exampleHandlersT emptyBuild) ''run'' = Some (GObject 0)
   \<and> createGraphQlFieldHierarchy exampleBrokenT emptyBuild = Inl OutIndexOutOfBounds"
  by (simp add: builtFieldType_def exampleRootT_def exampleHandlersT_def exampleBrokenT_def
        dbConfigT_def anyFuncT_def build_eval)

subsection \<open>The arguments of a field\<close>

lemma inputObjectFields_dom:
  "dom (inputObjectFields vfs m)
     = dom m \<union> {ToLower n |n p t. (n, p, t) \<in> set vfs \<and> getBasicOutput t \<noteq> None}"
proof (induction vfs arbitrary: m)
  case Nil
  then show ?case by simp
next
  case (Cons v vfs)
  obtain n p t where v: "v = (n, p, t)" by (cases v) auto
  show ?case
  proof (cases "getBasicOutput t")
    case None
    have "inputObjectFields (v # vfs) m = inputObjectFields vfs m"
      using None v by (simp del: getBasicOutput.simps)
    moreover have "{ToLower n' |n' p' t'. (n', p', t') \<in> set (v # vfs) \<and> getBasicOutput t' \<noteq> None}
        = {ToLower n' |n' p' t'. (n', p', t') \<in> set vfs \<and> getBasicOutput t' \<noteq> None}"
      using None v by (auto simp del: getBasicOutput.simps)
    ultimately show ?thesis by (simp only: Cons.IH)
  next
    case (Some b)
    have "inputObjectFields (v # vfs) m = inputObjectFields vfs (m(ToLower n \<mapsto> b))"
      using Some v by (simp del: getBasicOutput.simps)
    moreover have "{ToLower n' |n' p' t'. (n', p', t') \<in> set (v # vfs) \<and> getBasicOutput t' \<noteq> None}
        = insert (ToLower n)
            {ToLower n' |n' p' t'. (n', p', t') \<in> set vfs \<and> getBasicOutput t' \<noteq> None}"
      using Some v by (auto simp del: getBasicOutput.simps)
    ultimately show ?thesis by (simp only: Cons.IH dom_fun_upd) auto
  qed
qed

lemma inputObjectFields_member:
  "inputObjectFields vfs m k = Some b \<Longrightarrow>
   m k = Some b \<or> (\<exists>n p t. (n, p, t) \<in> set vfs \<and> ToLower n = k \<and> getBasicOutput t = Some b)"
proof (induction vfs arbitrary: m)
  case Nil
  then show ?case by simp
next
  case (Cons v vfs)
  obtain n p t where v: "v = (n, p, t)" by (cases v) auto
  show ?case
  proof (cases "getBasicOutput t")
    case None
    with Cons.prems v have "inputObjectFields vfs m k = Some b"
      by (simp del: getBasicOutput.simps)
    from Cons.IH [OF this] show ?thesis by auto
  next
    case (Some c)
    with Cons.prems v have "inputObjectFields vfs (m(ToLower n \<mapsto> c)) k = Some b"
      by (simp del: getBasicOutput.simps)
    from Cons.IH [OF this]
    have "(m(ToLower n \<mapsto> c)) k = Some b
          \<or> (\<exists>n p t. (n, p, t) \<in> set vfs \<and> ToLower n = k \<and> getBasicOutput t = Some b)" .
    then show ?thesis
    proof
      assume u: "(m(ToLower n \<mapsto> c)) k = Some b"
      show ?thesis
      proof (cases "k = ToLower n")
        case True
        with u have "c = b" by simp
        with Some v True have "(n, p, t) \<in> set (v # vfs) \<and> ToLower n = k \<and> getBasicOutput t = Some b"
          by (simp del: getBasicOutput.simps)
        then show ?thesis by blast
      next
        case False
        with u show ?thesis by simp
      qed
    next
      assume "\<exists>n p t. (n, p, t) \<in> set vfs \<and> ToLower n = k \<and> getBasicOutput t = Some b"
      then show ?thesis by (auto simp del: getBasicOutput.simps)
    qed
  qed
qed

lemma kindArguments_plain:
  "Elem sfType = None \<Longrightarrow> kindArguments sfName sfType args fm = (args, fm)"
  by (cases sfType) (simp_all add: kindArguments_def)

lemma kindArguments_list:
  "Elem sfType = Some elem \<Longrightarrow>
   kindArguments sfName sfType args fm = listArguments sfName elem args fm"
  by (cases sfType) (simp_all add: kindArguments_def)

lemma listArguments_struct:
  "Kind elem = KStruct \<Longrightarrow>
   listArguments sfName elem args fm =
     (args(''where'' \<mapsto>
        (case fm sfName of
           Some memo \<Rightarrow> memo
         | None \<Rightarrow>
             ArgumentConfig (GInputObject (ToLower sfName)
               (inputObjectFields (VisibleFields elem) Map.empty)))),
      fm(sfName \<mapsto>
        (case fm sfName of
           Some memo \<Rightarrow> memo
         | None \<Rightarrow>
             ArgumentConfig (GInputObject (ToLower sfName)
               (inputObjectFields (VisibleFields elem) Map.empty)))))"
  by (cases "fm sfName") (simp_all add: listArguments_def Let_def map_upd_triv)

lemma listArguments_scalar:
  "Kind elem \<noteq> KStruct \<Longrightarrow>
   listArguments sfName elem args fm =
     (args(''skip'' \<mapsto> ArgumentConfig GInt, ''limit'' \<mapsto> ArgumentConfig GInt), fm)"
  by (simp add: listArguments_def)

lemma filterArguments_apply:
  "filterArguments subfields k =
     (case subfields k of
        None \<Rightarrow> None
      | Some v \<Rightarrow>
          if fType v \<in> {GString, GInt, GBoolean, GFloat}
          then Some (ArgumentConfig (fType v)) else None)"
  by (simp add: filterArguments_def split: option.splits)

text \<open>
  Claim C5, as amended. A member that is kept (its type yields the descriptor \<open>ty\<close>
  and the sub-field map \<open>subfields\<close>) becomes a field with the arguments \<open>args\<close>:
  under every name other than \<^verbatim>\<open>where\<close>, \<^verbatim>\<open>skip\<close> and \<^verbatim>\<open>limit\<close>, one
  argument for each entry of the sub-field map whose type is one of the four scalars.
  A member that is neither slice nor array receives nothing else. A slice or array
  whose element kind is struct also receives \<^verbatim>\<open>where\<close>, always: the filter memoized
  under the member's name, or else a new input object named by the lower-cased member
  name, which is then memoized; it receives no \<^verbatim>\<open>skip\<close> or \<^verbatim>\<open>limit\<close> of its
  own. A slice or array of any other element kind receives \<^verbatim>\<open>skip\<close> and
  \<^verbatim>\<open>limit\<close> of type Int and no filter. The members of a new input object are exactly
  the lower-cased names of the element's visible fields for which
  \<^verbatim>\<open>getBasicOutput\<close> gives a scalar, each typed by that scalar.
\<close>

theorem argument_synthesis:
  assumes built: "createGraphQlFieldHierarchy sfType st = Inr ((Some ty, subfields), st1)"
    and synth: "kindArguments sfName sfType (filterArguments subfields) (filterMap st1) = (args, fm)"
  shows "structFieldLoop ((sfName, sfPkg, sfType) # rest) st flds
           = structFieldLoop rest (st1\<lparr>filterMap := fm\<rparr>)
               (flds(ToLower sfName \<mapsto>
                  \<lparr>fName = sfName, fType = ty, fArgs = args,
                   structFieldName = sfName, structFieldTypeKind = Kind sfType\<rparr>))
       \<and> (\<forall>k. k \<noteq> ''where'' \<and> k \<noteq> ''skip'' \<and> k \<noteq> ''limit'' \<longrightarrow>
              args k = (case subfields k of
                          None \<Rightarrow> None
                        | Some v \<Rightarrow>
                            if fType v \<in> {GString, GInt, GBoolean, GFloat}
                            then Some (ArgumentConfig (fType v)) else None))
       \<and> (Elem sfType = None \<longrightarrow> args = filterArguments subfields \<and> fm = filterMap st1)
       \<and> (Elem sfType = Some elem \<and> Kind elem = KStruct \<longrightarrow>
              args ''where''
                = Some (case filterMap st1 sfName of
                          Some memo \<Rightarrow> memo
                        | None \<Rightarrow>
                            ArgumentConfig (GInputObject (ToLower sfName)
                              (inputObjectFields (VisibleFields elem) Map.empty)))
              \<and> fm sfName = args ''where''
              \<and> (\<forall>k. k \<noteq> sfName \<longrightarrow> fm k = filterMap st1 k)
              \<and> args ''skip'' = filterArguments subfields ''skip''
              \<and> args ''limit'' = filterArguments subfields ''limit'')
       \<and> (Elem sfType = Some elem \<and> Kind elem \<noteq> KStruct \<longrightarrow>
              args ''skip'' = Some (ArgumentConfig GInt)
              \<and> args ''limit'' = Some (ArgumentConfig GInt)
              \<and> args ''where'' = filterArguments subfields ''where''
              \<and> fm = filterMap st1)
       \<and> dom (inputObjectFields (VisibleFields elem) Map.empty)
            = {ToLower n |n p t. (n, p, t) \<in> set (VisibleFields elem) \<and> getBasicOutput t \<noteq> None}
       \<and> (\<forall>k b. inputObjectFields (VisibleFields elem) Map.empty k = Some b \<longrightarrow>
              (\<exists>n p t. (n, p, t) \<in> set (VisibleFields elem) \<and> ToLower n = k
                         \<and> getBasicOutput t = Some b))"
proof -
  have step: "structFieldLoop ((sfName, sfPkg, sfType) # rest) st flds
           = structFieldLoop rest (st1\<lparr>filterMap := fm\<rparr>)
               (flds(ToLower sfName \<mapsto>
                  \<lparr>fName = sfName, fType = ty, fArgs = args,
                   structFieldName = sfName, structFieldTypeKind = Kind sfType\<rparr>))"
    using built synth by simp
  have plain: "Elem sfType = None \<longrightarrow> args = filterArguments subfields \<and> fm = filterMap st1"
    using synth by (auto simp add: kindArguments_plain)
  have rec: "Elem sfType = Some elem \<and> Kind elem = KStruct \<longrightarrow>
              args ''where''
                = Some (case filterMap st1 sfName of
                          Some memo \<Rightarrow> memo
                        | None \<Rightarrow>
                            ArgumentConfig (GInputObject (ToLower sfName)
                              (inputObjectFields (VisibleFields elem) Map.empty)))
              \<and> fm sfName = args ''where''
              \<and> (\<forall>k. k \<noteq> sfName \<longrightarrow> fm k = filterMap st1 k)
              \<and> args ''skip'' = filterArguments subfields ''skip''
              \<and> args ''limit'' = filterArguments subfields ''limit''"
    using synth by (auto simp add: kindArguments_list listArguments_struct)
  have scal: "Elem sfType = Some elem \<and> Kind elem \<noteq> KStruct \<longrightarrow>
              args ''skip'' = Some (ArgumentConfig GInt)
              \<and> args ''limit'' = Some (ArgumentConfig GInt)
              \<and> args ''where'' = filterArguments subfields ''where''
              \<and> fm = filterMap st1"
    using synth by (auto simp add: kindArguments_list listArguments_scalar)
  have other: "\<forall>k. k \<noteq> ''where'' \<and> k \<noteq> ''skip'' \<and> k \<noteq> ''limit'' \<longrightarrow>
              args k = (case subfields k of
                          None \<Rightarrow> None
                        | Some v \<Rightarrow>
                            if fType v \<in> {GString, GInt, GBoolean, GFloat}
                            then Some (ArgumentConfig (fType v)) else None)"
  proof (cases "Elem sfType")
    case None
    with synth have "args = filterArguments subfields"
      by (simp add: kindArguments_plain)
    then show ?thesis by (simp only: filterArguments_apply) simp
  next
    case (Some e)
    show ?thesis
    proof (cases "Kind e = KStruct")
      case True
      with synth Some have "args = (filterArguments subfields)(''where'' \<mapsto>
          (case filterMap st1 sfName of
             Some memo \<Rightarrow> memo
           | None \<Rightarrow>
               ArgumentConfig (GInputObject (ToLower sfName)
                 (inputObjectFields (VisibleFields e) Map.empty))))"
        by (simp add: kindArguments_list listArguments_struct)
      then have "\<forall>k. k \<noteq> ''where'' \<longrightarrow> args k = filterArguments subfields k" by simp
      then show ?thesis by (simp only: filterArguments_apply) simp
    next
      case False
      with synth Some have "args = (filterArguments subfields)
          (''skip'' \<mapsto> ArgumentConfig GInt, ''limit'' \<mapsto> ArgumentConfig GInt)"
        by (simp add: kindArguments_list listArguments_scalar)
      then have "\<forall>k. k \<noteq> ''skip'' \<and> k \<noteq> ''limit'' \<longrightarrow> args k = filterArguments subfields k"
        by simp
      then show ?thesis by (simp only: filterArguments_apply) simp
    qed
  qed
  have d: "dom (inputObjectFields (VisibleFields elem) Map.empty)
            = {ToLower n |n p t. (n, p, t) \<in> set (VisibleFields elem) \<and> getBasicOutput t \<noteq> None}"
    by (simp only: inputObjectFields_dom dom_empty Un_empty_left)
  have m: "\<forall>k b. inputObjectFields (VisibleFields elem) Map.empty k = Some b \<longrightarrow>
              (\<exists>n p t. (n, p, t) \<in> set (VisibleFields elem) \<and> ToLower n = k
                         \<and> getBasicOutput t = Some b)"
    using inputObjectFields_member [of "VisibleFields elem" Map.empty] by auto
  from step other plain rec scal d m show ?thesis by blast
qed

text \<open>
  The claim as stated fails. In \<^verbatim>\<open>Dog\<close> the member \<^verbatim>\<open>Friend\<close>, a struct and no
  collection, receives the argument \<^verbatim>\<open>name\<close>; a slice of \<^verbatim>\<open>Cat\<close> receives the
  argument \<^verbatim>\<open>name\<close> besides \<^verbatim>\<open>where\<close>; and a slice of structs that have no
  scalar member still receives \<^verbatim>\<open>where\<close>, with an input object without members.
\<close>

theorem argument_synthesis_counterexample:
  "builtArgument (createGraphQlFieldHierarchy dogT emptyBuild) ''friend'' ''name''
     = Some (ArgumentConfig GString)
   \<and> builtArgument (createGraphQlFieldHierarchy shelterT emptyBuild) ''cats'' ''name''
     = Some (ArgumentConfig GString)
   \<and> builtArgument (createGraphQlFieldHierarchy shelterT emptyBuild) ''boxes'' ''where''
     = Some (ArgumentConfig (GInputObject ''boxes'' Map.empty))"
  by (simp add: builtArgument_def dogT_def shelterT_def boxT_def build_eval)

text \<open>
  Claim C4 fails on the code. The cache is keyed by \<^verbatim>\<open>t.Name()\<close>, the name without
  the package, and a struct is entered in it only after its members are traversed. For
  \<^verbatim>\<open>app.Config\<close>, which holds a \<^verbatim>\<open>db.Config\<close>, \<^verbatim>\<open>graphql.NewObject\<close> is
  called twice with the name \<^verbatim>\<open>Config\<close>, and the second entry replaces the first
  in the cache. In \<^verbatim>\<open>Service\<close>, which holds an \<^verbatim>\<open>app.Config\<close> and then a
  \<^verbatim>\<open>db.Config\<close>, the two occurrences of \<^verbatim>\<open>db.Config\<close> get different
  descriptors: object 0 inside \<^verbatim>\<open>app.Config\<close>, and object 1, the descriptor of
  \<^verbatim>\<open>app.Config\<close>, for the member \<^verbatim>\<open>Store\<close>.
\<close>

theorem one_object_per_name_fails:
  "builtObjectNames (createGraphQlFieldHierarchy appConfigT emptyBuild) = [''Config'', ''Config'']
   \<and> builtObjectNames (createGraphQlFieldHierarchy serviceT emptyBuild)
       = [''Config'', ''Config'', ''Service'']
   \<and> builtObjectFieldType (createGraphQlFieldHierarchy serviceT emptyBuild) 1 ''db''
       = Some (GObject 0)
   \<and> builtFieldType (createGraphQlFieldHierarchy serviceT emptyBuild) ''store''
       = Some (GObject 1)"
  by (simp add: builtObjectNames_def builtObjectFieldType_def builtFieldType_def
        appConfigT_def dbConfigT_def serviceT_def build_eval)

lemma example_cats_built:
  "createGraphQlFieldHierarchy catsT emptyBuild
     = Inr ((Some (GList (Some (GObject 0))), exampleCatFields), exampleCatBuild)"
  by (simp add: build_eval exampleCatFields_def exampleCatBuild_def)

lemma example_tags_built:
  "createGraphQlFieldHierarchy (SliceT [] [] intT) emptyBuild
     = Inr ((Some (GList (Some GFloat)), Map.empty), emptyBuild)"
  by (simp add: build_eval)

theorem argument_synthesis_witness:
  "fst (kindArguments ''Cats'' catsT (filterArguments exampleCatFields) (filterMap exampleCatBuild))
       ''where''
     = Some (ArgumentConfig (GInputObject ''cats'' (inputObjectFields (VisibleFields catT) Map.empty)))
   \<and> fst (kindArguments ''Cats'' catsT (filterArguments exampleCatFields) (filterMap exampleCatBuild))
       ''name''
     = Some (ArgumentConfig GString)
   \<and> fst (kindArguments ''Tags'' (SliceT [] [] intT) (filterArguments Map.empty) (filterMap emptyBuild))
       ''skip''
     = Some (ArgumentConfig GInt)
   \<and> fst (kindArguments ''Tags'' (SliceT [] [] intT) (filterArguments Map.empty) (filterMap emptyBuild))
       ''limit''
     = Some (ArgumentConfig GInt)"
proof -
  have s1: "kindArguments ''Cats'' catsT (filterArguments exampleCatFields) (filterMap exampleCatBuild)
      = (fst (kindArguments ''Cats'' catsT (filterArguments exampleCatFields) (filterMap exampleCatBuild)),
         snd (kindArguments ''Cats'' catsT (filterArguments exampleCatFields) (filterMap exampleCatBuild)))"
    by simp
  have s2: "kindArguments ''Tags'' (SliceT [] [] intT) (filterArguments Map.empty) (filterMap emptyBuild)
      = (fst (kindArguments ''Tags'' (SliceT [] [] intT) (filterArguments Map.empty) (filterMap emptyBuild)),
         snd (kindArguments ''Tags'' (SliceT [] [] intT) (filterArguments Map.empty) (filterMap emptyBuild)))"
    by simp
  note a = argument_synthesis [OF example_cats_built s1, where elem = catT]
  note b = argument_synthesis [OF example_tags_built s2, where elem = intT]
  have e1: "Elem catsT = Some catT \<and> Kind catT = KStruct"
    by (simp add: catsT_def catT_def)
  have e2: "Elem (SliceT [] [] intT) = Some intT \<and> Kind intT \<noteq> KStruct"
    by (simp add: intT_def)
  have n: "''name'' \<noteq> ''where'' \<and> ''name'' \<noteq> ''skip'' \<and> ''name'' \<noteq> ''limit''"
    by simp
  have f: "filterMap exampleCatBuild ''Cats'' = None"
    by (simp add: exampleCatBuild_def)
  have l: "ToLower ''Cats'' = ''cats''"
    by (simp add: ToLower_def toLowerChar_def)
  have c: "(case exampleCatFields ''name'' of
              None \<Rightarrow> None
            | Some v \<Rightarrow>
                if fType v \<in> {GString, GInt, GBoolean, GFloat}
                then Some (ArgumentConfig (fType v)) else None) = Some (ArgumentConfig GString)"
    by (simp add: exampleCatFields_def)
  note a_where = a [THEN conjunct2, THEN conjunct2, THEN conjunct2, THEN conjunct1,
      THEN mp, OF e1, THEN conjunct1]
  note a_other = a [THEN conjunct2, THEN conjunct1, THEN spec, THEN mp, OF n]
  note b_scalar = b [THEN conjunct2, THEN conjunct2, THEN conjunct2, THEN conjunct2,
      THEN conjunct1, THEN mp, OF e2]
  have w: "fst (kindArguments ''Cats'' catsT (filterArguments exampleCatFields) (filterMap exampleCatBuild))
       ''where''
     = Some (ArgumentConfig (GInputObject ''cats'' (inputObjectFields (VisibleFields catT) Map.empty)))"
    by (simp only: a_where f l option.case)
  have m: "fst (kindArguments ''Cats'' catsT (filterArguments exampleCatFields) (filterMap exampleCatBuild))
       ''name''
     = Some (ArgumentConfig GString)"
    by (simp only: a_other c)
  have sl: "fst (kindArguments ''Tags'' (SliceT [] [] intT) (filterArguments Map.empty) (filterMap emptyBuild))
       ''skip''
     = Some (ArgumentConfig GInt)
   \<and> fst (kindArguments ''Tags'' (SliceT [] [] intT) (filterArguments Map.empty) (filterMap emptyBuild))
       ''limit''
     = Some (ArgumentConfig GInt)"
    using b_scalar by (simp only: simp_thms)
  from w m sl show ?thesis by blast
qed

subsection \<open>What holds of the cache and of the comparison\<close>

text \<open>
  The cache-hit path: an entry under the type's name is returned as it is, and the state
  is left as it is. A struct that was built is in the cache under its name afterwards,
  so a second traversal of it from that state returns the same descriptor and fields.
\<close>

lemma cache_hit_returns_entry:
  "typesMap st (Name t) = Some knownType \<Longrightarrow>
   createGraphQlFieldHierarchy t st = Inr (knownType, st)"
  by (subst createGraphQlFieldHierarchy.simps) simp

lemma struct_registered_when_built:
  assumes built: "createGraphQlFieldHierarchy (StructT p n vfs) st = Inr (r, st')"
    and nt: "StructT p n vfs \<noteq> typeTime"
  shows "typesMap st' n = Some r
       \<and> createGraphQlFieldHierarchy (StructT p n vfs) st' = Inr (r, st')"
proof -
  have reg: "typesMap st' n = Some r"
  proof (cases "typesMap st n")
    case (Some k)
    with built show ?thesis
      by (simp add: createGraphQlFieldHierarchy_StructT)
  next
    case None
    with built nt show ?thesis
      by (auto simp add: createGraphQlFieldHierarchy_StructT Let_def split: sum.splits)
  qed
  then have "typesMap st' (Name (StructT p n vfs)) = Some r" by simp
  then have "createGraphQlFieldHierarchy (StructT p n vfs) st' = Inr (r, st')"
    by (rule cache_hit_returns_entry)
  with reg show ?thesis by simp
qed

text \<open>
  The comparison with a numeric filter value: a signed member that holds the same number
  matches exactly when its type is \<^verbatim>\<open>int\<close>, \<^verbatim>\<open>int8\<close>, \<^verbatim>\<open>int32\<close> or
  \<^verbatim>\<open>int64\<close>; an unsigned member never matches; a floating-point member matches
  exactly when its type is \<^verbatim>\<open>float64\<close> and the values are equal.
\<close>

lemma filterMatch_signed:
  "\<bar>n\<bar> \<le> 2 ^ 53 \<Longrightarrow>
   filterMatch (VFloat float64T (Finite (of_int n))) (RV False (VInt t n))
     = Inr (t = intT \<or> t = int8T \<or> t = int32T \<or> t = int64T)"
  by (simp add: filterMatch_def float64_of_int_safe)

lemma filterMatch_unsigned:
  "filterMatch (VFloat float64T fv) (RV False (VUint t n)) = Inr False"
  by (simp add: filterMatch_def)

lemma filterMatch_float:
  "filterMatch (VFloat float64T fv) (RV False (VFloat t y))
     = Inr (t = float64T \<and> float64_eq fv y)"
  by (simp add: filterMatch_def)

text \<open>
  The comparison with a filter value that is no \<^verbatim>\<open>float64\<close>: two strings match
  exactly when their types and their contents are the same, and the comparison of two
  maps panics.
\<close>

lemma filterMatch_string:
  "filterMatch (VString t a) (RV False (VString t' b)) = Inr (t = t' \<and> a = b)"
  by (simp add: filterMatch_def interfaceEq_def)

lemma filterMatch_uncomparable:
  "filterMatch (VMap m) (RV False (VMap m')) = Inl UncomparableType"
  by (simp add: filterMatch_def interfaceEq_def)

subsection \<open>One object for each name, for properly named types\<close>

lemma loop_builds_well:
  "\<forall>x \<in> set vfs. builds_well (snd (snd x)) \<Longrightarrow>
   properlyNamedList vfs \<Longrightarrow> registered st \<Longrightarrow>
   structFieldLoop vfs st flds = Inr (flds', st') \<Longrightarrow>
   registered st' \<and> dom (typesMap st') \<subseteq> dom (typesMap st) \<union> structNamesList vfs"
proof (induction vfs arbitrary: st flds)
  case Nil
  then show ?case by simp
next
  case (Cons v vfs)
  obtain sfName sfPkg sfType where v: "v = (sfName, sfPkg, sfType)" by (cases v) auto
  have bw: "builds_well sfType" using Cons.prems(1) v by auto
  have pn: "properlyNamed sfType" and pl: "properlyNamedList vfs"
    using Cons.prems(2) v by auto
  have rest: "\<forall>x \<in> set vfs. builds_well (snd (snd x))"
    using Cons.prems(1) by auto
  from Cons.prems(4) v obtain res st1 where
    c: "createGraphQlFieldHierarchy sfType st = Inr (res, st1)"
    by (cases "createGraphQlFieldHierarchy sfType st") (auto simp add: structFieldLoop_Cons)
  obtain structFieldType subfields where res: "res = (structFieldType, subfields)"
    by (cases res) auto
  from bw pn Cons.prems(3) c
  have r1: "registered st1" and d1: "dom (typesMap st1) \<subseteq> dom (typesMap st) \<union> structNames sfType"
    unfolding builds_well_def by blast+
  show ?case
  proof (cases structFieldType)
    case None
    with Cons.prems(4) v c res have l: "structFieldLoop vfs st1 flds = Inr (flds', st')"
      by (simp add: structFieldLoop_Cons)
    from Cons.IH [OF rest pl r1 l]
    have a: "registered st'"
      and b: "dom (typesMap st') \<subseteq> dom (typesMap st1) \<union> structNamesList vfs"
      by simp_all
    have n: "structNamesList (v # vfs) = structNames sfType \<union> structNamesList vfs"
      using v by simp
    from a b d1 show ?thesis unfolding n by blast
  next
    case (Some ty)
    define st2 where "st2 = st1\<lparr>filterMap := snd (kindArguments sfName sfType (filterArguments subfields) (filterMap st1))\<rparr>"
    from Cons.prems(4) v c res Some obtain flds2 where
      l: "structFieldLoop vfs st2 flds2 = Inr (flds', st')"
      by (simp add: st2_def split_def)
    have r2: "registered st2" using r1 by (simp add: registered_def st2_def)
    have d2: "typesMap st2 = typesMap st1" by (simp add: st2_def)
    from Cons.IH [OF rest pl r2 l]
    have a: "registered st'"
      and b: "dom (typesMap st') \<subseteq> dom (typesMap st2) \<union> structNamesList vfs"
      by simp_all
    have n: "structNamesList (v # vfs) = structNames sfType \<union> structNamesList vfs"
      using v by simp
    from a b d1 d2 show ?thesis unfolding n by auto
  qed
qed


lemma builds_wellI:
  "(\<And>st r st'. properlyNamed t \<Longrightarrow> registered st \<Longrightarrow>
      createGraphQlFieldHierarchy t st = Inr (r, st') \<Longrightarrow>
      registered st' \<and> dom (typesMap st') \<subseteq> dom (typesMap st) \<union> structNames t) \<Longrightarrow>
   builds_well t"
  unfolding builds_well_def by blast

lemma builds_wellD:
  "builds_well t \<Longrightarrow> properlyNamed t \<Longrightarrow> registered st \<Longrightarrow>
   createGraphQlFieldHierarchy t st = Inr (r, st') \<Longrightarrow>
   registered st' \<and> dom (typesMap st') \<subseteq> dom (typesMap st) \<union> structNames t"
  unfolding builds_well_def by blast

lemma all_build_well: "builds_well t"
proof (induction t)
  case (Basic p n k)
  show ?case
  proof (rule builds_wellI)
    fix st r st'
    assume "registered st" and "createGraphQlFieldHierarchy (Basic p n k) st = Inr (r, st')"
    then show "registered st' \<and> dom (typesMap st') \<subseteq> dom (typesMap st) \<union> structNames (Basic p n k)"
      by (subst (asm) createGraphQlFieldHierarchy.simps)
         (auto simp add: typeTime_def split: option.splits)
  qed
next
  case (StructT p n vfs)
  have ih: "\<forall>x \<in> set vfs. builds_well (snd (snd x))"
  proof
    fix x assume x: "x \<in> set vfs"
    obtain a b t where xt: "x = (a, b, t)" by (cases x) auto
    with x show "builds_well (snd (snd x))"
      using StructT.IH [of x "(b, t)" t] by simp
  qed
  show ?case
  proof (rule builds_wellI)
    fix st r st'
    assume pn: "properlyNamed (StructT p n vfs)" and reg: "registered st"
      and c: "createGraphQlFieldHierarchy (StructT p n vfs) st = Inr (r, st')"
    show "registered st' \<and> dom (typesMap st') \<subseteq> dom (typesMap st) \<union> structNames (StructT p n vfs)"
    proof (cases "typesMap st n")
      case (Some k)
      with c reg show ?thesis by (auto simp add: createGraphQlFieldHierarchy_StructT)
    next
      case None
      show ?thesis
      proof (cases "StructT p n vfs = typeTime")
        case True
        have "st' = st"
          using c unfolding createGraphQlFieldHierarchy_StructT using None True by simp
        with reg show ?thesis by auto
      next
        case False
        with c None obtain flds st2 where
          l: "structFieldLoop vfs st Map.empty = Inr (flds, st2)"
          and s: "st' = st2\<lparr>objects := objects st2 @ [(n, flds)],
                     typesMap := (typesMap st2)(n \<mapsto> (Some (GObject (length (objects st2))), flds))\<rparr>"
          by (auto simp add: createGraphQlFieldHierarchy_StructT Let_def split: sum.splits)
        from pn have pl: "properlyNamedList vfs" and fresh: "n \<notin> structNamesList vfs" by simp_all
        from loop_builds_well [OF ih pl reg l]
        have r2: "registered st2"
          and d2: "dom (typesMap st2) \<subseteq> dom (typesMap st) \<union> structNamesList vfs"
          by simp_all
        from None fresh d2 have nd: "n \<notin> dom (typesMap st2)" by auto
        with r2 have nn: "n \<notin> set (map fst (objects st2))"
          unfolding registered_def by blast
        from r2 nn have "registered st'"
          unfolding registered_def s by auto
        moreover from d2 have "dom (typesMap st') \<subseteq> dom (typesMap st) \<union> structNames (StructT p n vfs)"
          unfolding s by auto
        ultimately show ?thesis by simp
      qed
    qed
  qed
next
  case (SliceT p n e)
  show ?case
  proof (rule builds_wellI)
    fix st r st'
    assume pn: "properlyNamed (SliceT p n e)" and reg: "registered st"
      and c: "createGraphQlFieldHierarchy (SliceT p n e) st = Inr (r, st')"
    show "registered st' \<and> dom (typesMap st') \<subseteq> dom (typesMap st) \<union> structNames (SliceT p n e)"
    proof (cases "typesMap st n")
      case (Some k)
      with c reg show ?thesis
        by (subst (asm) createGraphQlFieldHierarchy.simps) auto
    next
      case None
      with c obtain r1 where e: "createGraphQlFieldHierarchy e st = Inr (r1, st')"
        by (subst (asm) createGraphQlFieldHierarchy.simps)
           (auto simp add: typeTime_def split: sum.splits)
      from pn have "properlyNamed e" by simp
      from builds_wellD [OF SliceT.IH this reg e] show ?thesis by simp
    qed
  qed
next
  case (ArrayT p n len e)
  show ?case
  proof (rule builds_wellI)
    fix st r st'
    assume pn: "properlyNamed (ArrayT p n len e)" and reg: "registered st"
      and c: "createGraphQlFieldHierarchy (ArrayT p n len e) st = Inr (r, st')"
    show "registered st' \<and> dom (typesMap st') \<subseteq> dom (typesMap st) \<union> structNames (ArrayT p n len e)"
    proof (cases "typesMap st n")
      case (Some k)
      with c reg show ?thesis
        by (subst (asm) createGraphQlFieldHierarchy.simps) auto
    next
      case None
      with c obtain r1 where e: "createGraphQlFieldHierarchy e st = Inr (r1, st')"
        by (subst (asm) createGraphQlFieldHierarchy.simps)
           (auto simp add: typeTime_def split: sum.splits)
      from pn have "properlyNamed e" by simp
      from builds_wellD [OF ArrayT.IH this reg e] show ?thesis by simp
    qed
  qed
next
  case (FuncT p n ins outs)
  show ?case
  proof (rule builds_wellI)
    fix st r st'
    assume pn: "properlyNamed (FuncT p n ins outs)" and reg: "registered st"
      and c: "createGraphQlFieldHierarchy (FuncT p n ins outs) st = Inr (r, st')"
    show "registered st' \<and> dom (typesMap st') \<subseteq> dom (typesMap st) \<union> structNames (FuncT p n ins outs)"
    proof (cases "typesMap st n")
      case (Some k)
      with c reg show ?thesis
        by (subst (asm) createGraphQlFieldHierarchy.simps) auto
    next
      case None
      show ?thesis
      proof (cases outs)
        case Nil
        with c None show ?thesis
          by (subst (asm) createGraphQlFieldHierarchy.simps) (auto simp add: typeTime_def)
      next
        case (Cons returnType others)
        show ?thesis
        proof (cases "Kind returnType = KInterface")
          case True
          with c None Cons reg show ?thesis
            by (subst (asm) createGraphQlFieldHierarchy.simps) (auto simp add: typeTime_def)
        next
          case False
          with c None Cons have e: "createGraphQlFieldHierarchy returnType st = Inr (r, st')"
            by (subst (asm) createGraphQlFieldHierarchy.simps) (auto simp add: typeTime_def)
          have bw: "builds_well returnType" using FuncT.IH(2) Cons by simp
          from pn Cons have "properlyNamed returnType" by simp
          from builds_wellD [OF bw this reg e] Cons show ?thesis by simp
        qed
      qed
    qed
  qed
qed

text \<open>
  A build that starts from the empty cache, as \<^verbatim>\<open>QueryStructViaGraphql\<close> starts it,
  makes at most one object for each name, provided that no struct type in the traversed
  type holds a struct type of its own name.
\<close>

theorem one_object_per_name_when_properly_named:
  assumes "properlyNamed t"
    and "createGraphQlFieldHierarchy t emptyBuild = Inr (r, st)"
  shows "distinct (map fst (objects st))"
proof -
  have "registered emptyBuild" by (simp add: registered_def emptyBuild_def)
  from builds_wellD [OF all_build_well assms(1) this assms(2)]
  show ?thesis by (simp add: registered_def)
qed

end
